theory Spec2Isabelle
  imports Complex_Main "HOL-Library.Word"
begin

section \<open>Platform: random numbers and audio parameters\<close>

text \<open>
  \<^verbatim>\<open>Math.random()\<close> returns a number in the half-open interval from 0 to 1. It is
  modelled as an arbitrary infinite sequence of such outcomes together with a cursor
  \<open>k\<close>: the \<open>k\<close>-th call returns \<open>Math_random rnd k\<close>. A loop that draws until some
  condition holds is a partial function: \<open>None\<close> means that it never returns.
\<close>

typedef unit_real = "{x::real. 0 \<le> x \<and> x < 1}"
  by (rule exI[of _ 0]) simp

setup_lifting type_definition_unit_real

lift_definition draw_zero :: unit_real is "0::real"
  by simp

lift_definition draw_half :: unit_real is "1 / 2 :: real"
  by simp

type_synonym rng = "nat \<Rightarrow> unit_real"

definition Math_random :: "rng \<Rightarrow> nat \<Rightarrow> real" where
  "Math_random rnd k = Rep_unit_real (rnd k)"

text \<open>
  An \<^verbatim>\<open>AudioParam\<close> of the Web Audio API: the value it holds at the moment (what the
  \<^verbatim>\<open>value\<close> getter returns) and its automation timeline, a list of events ordered by
  time. A new event goes after the events that are not later than it.
\<close>

datatype AutomationEvent = SetValue real real | LinearRamp real real

fun ev_value :: "AutomationEvent \<Rightarrow> real" where
  "ev_value (SetValue v t) = v"
| "ev_value (LinearRamp v t) = v"

fun ev_time :: "AutomationEvent \<Rightarrow> real" where
  "ev_time (SetValue v t) = t"
| "ev_time (LinearRamp v t) = t"

record AudioParam =
  current_value :: real
  events :: "AutomationEvent list"

definition new_param :: "real \<Rightarrow> AudioParam" where
  "new_param v = \<lparr>current_value = v, events = []\<rparr>"

fun insert_event :: "AutomationEvent \<Rightarrow> AutomationEvent list \<Rightarrow> AutomationEvent list" where
  "insert_event e [] = [e]"
| "insert_event e (x # xs) =
     (if ev_time e < ev_time x then e # x # xs else x # insert_event e xs)"

definition cancelScheduledValues :: "real \<Rightarrow> AudioParam \<Rightarrow> AudioParam" where
  "cancelScheduledValues t p = p\<lparr>events := filter (\<lambda>e. ev_time e < t) (events p)\<rparr>"

definition setValueAtTime :: "real \<Rightarrow> real \<Rightarrow> AudioParam \<Rightarrow> AudioParam" where
  "setValueAtTime v t p = p\<lparr>events := insert_event (SetValue v t) (events p)\<rparr>"

definition linearRampToValueAtTime :: "real \<Rightarrow> real \<Rightarrow> AudioParam \<Rightarrow> AudioParam" where
  "linearRampToValueAtTime v t p = p\<lparr>events := insert_event (LinearRamp v t) (events p)\<rparr>"



section \<open>NoiseGenerator.js\<close>

text \<open>
  Each generator fills a buffer of \<open>sampleRate * 2\<close> samples, drawing one random number
  per sample. The fill loops take the index of the next sample, the number of samples
  left and the filter state.
\<close>

definition createWhiteNoise :: "nat \<Rightarrow> rng \<Rightarrow> real list" where
  "createWhiteNoise sampleRate rnd =
     (let bufferSize = sampleRate * 2 in map (\<lambda>i. Math_random rnd i * 2 - 1) [0..<bufferSize])"

record pink_state =
  b0 :: real
  b1 :: real
  b2 :: real
  b3 :: real
  b4 :: real
  b5 :: real
  b6 :: real

definition pink_init :: pink_state where
  "pink_init = \<lparr>b0 = 0, b1 = 0, b2 = 0, b3 = 0, b4 = 0, b5 = 0, b6 = 0\<rparr>"

definition pink_step :: "pink_state \<Rightarrow> real \<Rightarrow> pink_state \<times> real" where
  "pink_step s white =
     (let b0' = 0.99886 * b0 s + white * 0.0555179;
          b1' = 0.99332 * b1 s + white * 0.0750759;
          b2' = 0.96900 * b2 s + white * 0.1538520;
          b3' = 0.86650 * b3 s + white * 0.3104856;
          b4' = 0.55000 * b4 s + white * 0.5329522;
          b5' = - 0.7616 * b5 s - white * 0.0168980;
          pink = b0' + b1' + b2' + b3' + b4' + b5' + b6 s + white * 0.5362;
          b6' = white * 0.115926
      in (\<lparr>b0 = b0', b1 = b1', b2 = b2', b3 = b3', b4 = b4', b5 = b5', b6 = b6'\<rparr>,
          pink * 0.11))"

fun pink_fill :: "rng \<Rightarrow> nat \<Rightarrow> nat \<Rightarrow> pink_state \<Rightarrow> real list" where
  "pink_fill rnd i 0 s = []"
| "pink_fill rnd i (Suc m) s =
     (let white = Math_random rnd i * 2 - 1;
          (s', sample) = pink_step s white
      in sample # pink_fill rnd (Suc i) m s')"

definition createPinkNoise :: "nat \<Rightarrow> rng \<Rightarrow> real list" where
  "createPinkNoise sampleRate rnd =
     (let bufferSize = sampleRate * 2 in pink_fill rnd 0 bufferSize pink_init)"

fun brown_fill :: "rng \<Rightarrow> nat \<Rightarrow> nat \<Rightarrow> real \<Rightarrow> real list" where
  "brown_fill rnd i 0 lastOut = []"
| "brown_fill rnd i (Suc m) lastOut =
     (let white = Math_random rnd i * 2 - 1;
          lastOut' = (lastOut + (0.02 * white)) / 1.02
      in lastOut' * 3.5 # brown_fill rnd (Suc i) m lastOut')"

definition createBrownNoise :: "nat \<Rightarrow> rng \<Rightarrow> real list" where
  "createBrownNoise sampleRate rnd =
     (let bufferSize = sampleRate * 2 in brown_fill rnd 0 bufferSize 0)"

section \<open>AudioAnalyzer.js\<close>

text \<open>
  The analyser node of the platform accepts an FFT size that is a power of two from 32
  to 32768 and throws on any other; its \<open>frequencyBinCount\<close> is half the FFT size. The
  two byte arrays have that length for good: \<^verbatim>\<open>getByteFrequencyData\<close> and
  \<^verbatim>\<open>getByteTimeDomainData\<close> overwrite their leading entries with the data
  of the node and never resize them.
\<close>

record SmoothedData =
  lowFrequency :: real
  midFrequency :: real
  highFrequency :: real
  volume :: real

record AudioAnalyzer =
  an_fftSize :: nat
  an_smoothingTimeConstant :: real
  an_frequencyBinCount :: nat
  an_frequencyData :: "8 word list"
  an_timeDomainData :: "8 word list"
  an_smoothedData :: SmoothedData
  an_smoothingFactor :: real
  an_lowBinStart :: nat
  an_lowBinEnd :: nat
  an_midBinStart :: nat
  an_midBinEnd :: nat
  an_highBinStart :: nat
  an_highBinEnd :: nat

definition zero_data :: SmoothedData where
  "zero_data = \<lparr>lowFrequency = 0, midFrequency = 0, highFrequency = 0, volume = 0\<rparr>"

definition valid_fftSize :: "nat \<Rightarrow> bool" where
  "valid_fftSize n = (n \<in> set (map (\<lambda>k. 2 ^ k) [5..<16]))"

text \<open>
  The constructor; \<open>None\<close> when the analyser node rejects the FFT size. An option that
  is absent or zero takes the default (\<^verbatim>\<open>options.fftSize || 2048\<close>).
\<close>

definition AudioAnalyzer_new :: "nat \<Rightarrow> nat option \<Rightarrow> real option \<Rightarrow> AudioAnalyzer option" where
  "AudioAnalyzer_new sampleRate opt_fftSize opt_smoothing =
     (let fftSize = (case opt_fftSize of None \<Rightarrow> 2048 | Some n \<Rightarrow> if n = 0 then 2048 else n);
          smoothing = (case opt_smoothing of None \<Rightarrow> 0.8 | Some c \<Rightarrow> if c = 0 then 0.8 else c)
      in if \<not> valid_fftSize fftSize then None
         else
           let frequencyBinCount = fftSize div 2;
               nyquist = real sampleRate / 2;
               binFrequency = nyquist / real frequencyBinCount;
               lowBinEnd = nat \<lfloor>250 / binFrequency\<rfloor>;
               midBinEnd = nat \<lfloor>2000 / binFrequency\<rfloor>
           in Some \<lparr>an_fftSize = fftSize,
                    an_smoothingTimeConstant = smoothing,
                    an_frequencyBinCount = frequencyBinCount,
                    an_frequencyData = replicate frequencyBinCount 0,
                    an_timeDomainData = replicate frequencyBinCount 0,
                    an_smoothedData = zero_data,
                    an_smoothingFactor = 0.15,
                    an_lowBinStart = nat \<lfloor>20 / binFrequency\<rfloor>,
                    an_lowBinEnd = lowBinEnd,
                    an_midBinStart = lowBinEnd,
                    an_midBinEnd = midBinEnd,
                    an_highBinStart = midBinEnd,
                    an_highBinEnd = nat \<lfloor>8000 / binFrequency\<rfloor>\<rparr>)"

definition fill_bytes :: "8 word list \<Rightarrow> 8 word list \<Rightarrow> 8 word list" where
  "fill_bytes arr node_data = take (length arr) node_data @ drop (length node_data) arr"

definition getAverageEnergy :: "AudioAnalyzer \<Rightarrow> nat \<Rightarrow> nat \<Rightarrow> real" where
  "getAverageEnergy a startBin endBin =
     (let clampedEnd = min endBin (an_frequencyBinCount a);
          count = int clampedEnd - int startBin
      in if count \<le> 0 then 0
         else
           let sum = (\<Sum>i \<leftarrow> [startBin..<clampedEnd]. real (unat (an_frequencyData a ! i)))
           in (sum / real_of_int count) / 255)"

definition getRMSVolume :: "AudioAnalyzer \<Rightarrow> real" where
  "getRMSVolume a =
     (let sum = (\<Sum>x \<leftarrow> an_timeDomainData a.
                   let normalized = (real (unat x) - 128) / 128 in normalized * normalized);
          rms = sqrt (sum / real (length (an_timeDomainData a)))
      in min (rms * 2) 1)"

definition smooth :: "AudioAnalyzer \<Rightarrow> real \<Rightarrow> real \<Rightarrow> real" where
  "smooth a currentSmoothed newValue =
     currentSmoothed * (1 - an_smoothingFactor a) + newValue * an_smoothingFactor a"

text \<open>
  \<open>update\<close> takes the frequency and time-domain bytes that the analyser node delivers at
  this call.
\<close>

definition update :: "8 word list \<Rightarrow> 8 word list \<Rightarrow> AudioAnalyzer \<Rightarrow> AudioAnalyzer" where
  "update node_freq node_time a =
     (let a1 = a\<lparr>an_frequencyData := fill_bytes (an_frequencyData a) node_freq\<rparr>;
          rawLow = getAverageEnergy a1 (an_lowBinStart a1) (an_lowBinEnd a1);
          rawMid = getAverageEnergy a1 (an_midBinStart a1) (an_midBinEnd a1);
          rawHigh = getAverageEnergy a1 (an_highBinStart a1) (an_highBinEnd a1);
          a2 = a1\<lparr>an_timeDomainData := fill_bytes (an_timeDomainData a1) node_time\<rparr>;
          rawVolume = getRMSVolume a2;
          d = an_smoothedData a2
      in a2\<lparr>an_smoothedData :=
              \<lparr>lowFrequency = smooth a2 (lowFrequency d) rawLow,
               midFrequency = smooth a2 (midFrequency d) rawMid,
               highFrequency = smooth a2 (highFrequency d) rawHigh,
               volume = smooth a2 (volume d) rawVolume\<rparr>\<rparr>)"

definition getData :: "AudioAnalyzer \<Rightarrow> SmoothedData" where
  "getData a = an_smoothedData a"






section \<open>SampleLoader.js\<close>

text \<open>
  A decoded \<^verbatim>\<open>AudioBuffer\<close> is identified by the URL it was fetched from and has a
  duration in seconds.
\<close>

record AudioBuffer =
  buf_url :: string
  buf_duration :: real

text \<open>
  The promises returned by \<^verbatim>\<open>_fetchAndDecode\<close> are numbered in the order of their
  creation; \<open>net_fetched\<close> lists the URLs fetched so far, so that promise \<open>i\<close> belongs to
  the \<open>i\<close>-th fetch. The loader keeps the cache \<open>buffers\<close> and the in-flight map
  \<open>loading\<close> from a sample name to its pending promise.
\<close>

record SampleLoader =
  sl_buffers :: "string \<rightharpoonup> AudioBuffer"
  sl_loading :: "string \<rightharpoonup> nat"
  net_fetched :: "string list"

definition SampleLoader_new :: SampleLoader where
  "SampleLoader_new = \<lparr>sl_buffers = Map.empty, sl_loading = Map.empty, net_fetched = []\<rparr>"

text \<open>
  What a call of \<^verbatim>\<open>load\<close> has done when it reaches its first suspension point or
  returns: it has returned the cached buffer, it has returned the pending promise of an
  earlier call, or it has started a fetch of its own and awaits it.
\<close>

datatype load_call =
  Cached AudioBuffer
| Joined nat
| Started nat

definition load_begin :: "string \<Rightarrow> string \<Rightarrow> SampleLoader \<Rightarrow> load_call \<times> SampleLoader" where
  "load_begin name url l =
     (case sl_buffers l name of
        Some buffer \<Rightarrow> (Cached buffer, l)
      | None \<Rightarrow>
          (case sl_loading l name of
             Some loadPromise \<Rightarrow> (Joined loadPromise, l)
           | None \<Rightarrow>
               let loadPromise = length (net_fetched l)
               in (Started loadPromise,
                   l\<lparr>net_fetched := net_fetched l @ [url],
                     sl_loading := (sl_loading l)(name \<mapsto> loadPromise)\<rparr>)))"

text \<open>
  The rest of a call that started a fetch, run when its promise settles: with the decoded
  buffer (\<open>Inr\<close>) or with the error of the fetch or of the decoder (\<open>Inl\<close>). The result is
  what the promise of the call settles with.
\<close>

definition load_settle ::
    "string \<Rightarrow> string + AudioBuffer \<Rightarrow> SampleLoader \<Rightarrow> (string + AudioBuffer) \<times> SampleLoader" where
  "load_settle name outcome l =
     (case outcome of
        Inr buffer \<Rightarrow>
          (Inr buffer,
           l\<lparr>sl_buffers := (sl_buffers l)(name \<mapsto> buffer),
             sl_loading := (sl_loading l)(name := None)\<rparr>)
      | Inl error \<Rightarrow> (Inl error, l\<lparr>sl_loading := (sl_loading l)(name := None)\<rparr>))"

text \<open>
  The part of the audio graph that \<^verbatim>\<open>play\<close> builds: nodes are numbered in the order of
  their creation, node 0 is the destination of the context.
\<close>

datatype AudioNode =
  DestinationNode
| BufferSourceNode AudioBuffer real real
| GainNode real

record AudioGraph =
  g_nodes :: "AudioNode list"
  g_connections :: "(nat \<times> nat) list"
  g_started :: "nat list"

definition context_destination :: nat where
  "context_destination = 0"

definition AudioGraph_new :: AudioGraph where
  "AudioGraph_new = \<lparr>g_nodes = [DestinationNode], g_connections = [], g_started = []\<rparr>"

record play_options =
  opt_destination :: "nat option"
  opt_volume :: "real option"
  opt_playbackRate :: "real option"
  opt_detune :: "real option"

definition SampleLoader_play ::
    "string \<Rightarrow> play_options \<Rightarrow> SampleLoader \<times> AudioGraph \<Rightarrow> nat option \<times> SampleLoader \<times> AudioGraph" where
  "SampleLoader_play name options w =
     (let (l, g) = w in
      case sl_buffers l name of
        None \<Rightarrow> (None, l, g)
      | Some buffer \<Rightarrow>
          let destination = (case opt_destination options of None \<Rightarrow> context_destination | Some d \<Rightarrow> d);
              volume = (case opt_volume options of None \<Rightarrow> 1 | Some v \<Rightarrow> v);
              playbackRate = (case opt_playbackRate options of None \<Rightarrow> 1 | Some r \<Rightarrow> r);
              detune = (case opt_detune options of None \<Rightarrow> 0 | Some c \<Rightarrow> c);
              source = length (g_nodes g);
              g1 = g\<lparr>g_nodes := g_nodes g @ [BufferSourceNode buffer playbackRate detune]\<rparr>;
              gainNode = length (g_nodes g1);
              g2 = g1\<lparr>g_nodes := g_nodes g1 @ [GainNode volume]\<rparr>;
              g3 = g2\<lparr>g_connections := g_connections g2 @ [(source, gainNode)]\<rparr>;
              g4 = g3\<lparr>g_connections := g_connections g3 @ [(gainNode, destination)]\<rparr>;
              g5 = g4\<lparr>g_started := g_started g4 @ [source]\<rparr>
          in (Some source, l, g5))"

section \<open>Scene players\<close>

text \<open>
  A fetch of a URL followed by decoding either yields a buffer or fails; a player turns
  every failure into \<^verbatim>\<open>null\<close>. \<open>js_or\<close> is \<^verbatim>\<open>x || d\<close> on an optional number,
  \<open>js_nullish\<close> is \<^verbatim>\<open>x ?? d\<close>. Times are in seconds on the clock of the audio context;
  a timer is kept as the time at which it is due.
\<close>

type_synonym fetch_env = "string \<Rightarrow> AudioBuffer option"

definition js_or :: "real option \<Rightarrow> real \<Rightarrow> real" where
  "js_or x d = (case x of None \<Rightarrow> d | Some v \<Rightarrow> if v = 0 then d else v)"

definition js_nullish :: "real option \<Rightarrow> real \<Rightarrow> real" where
  "js_nullish x d = (case x of None \<Rightarrow> d | Some v \<Rightarrow> v)"

definition loaded_buffers :: "fetch_env \<Rightarrow> string list \<Rightarrow> AudioBuffer list" where
  "loaded_buffers fetch urls = map the (filter (\<lambda>b. b \<noteq> None) (map fetch urls))"

record SourceNode =
  src_buffer :: AudioBuffer
  src_loop :: bool
  src_playbackRate :: real
  src_detune :: real

subsection \<open>LoopPlayer.js\<close>

record LoopPlayer =
  lp_crossfadeDuration :: real
  lp_buffers :: "AudioBuffer list"
  lp_urls :: "string list"
  lp_connected :: bool
  lp_currentSource :: "SourceNode option"
  lp_currentGain :: "AudioParam option"
  lp_currentIndex :: int
  lp_isPlaying :: bool
  lp_isLoaded :: bool
  lp_nextTimeout :: "real option"

definition LoopPlayer_new :: "real option \<Rightarrow> LoopPlayer" where
  "LoopPlayer_new opt_crossfadeDuration =
     \<lparr>lp_crossfadeDuration = js_or opt_crossfadeDuration 2,
      lp_buffers = [], lp_urls = [], lp_connected = False,
      lp_currentSource = None, lp_currentGain = None, lp_currentIndex = - 1,
      lp_isPlaying = False, lp_isLoaded = False, lp_nextTimeout = None\<rparr>"

definition LoopPlayer_load :: "fetch_env \<Rightarrow> string list \<Rightarrow> LoopPlayer \<Rightarrow> LoopPlayer" where
  "LoopPlayer_load fetch urls p =
     (let buffers = loaded_buffers fetch urls
      in p\<lparr>lp_urls := urls, lp_buffers := buffers, lp_isLoaded := (length buffers > 0)\<rparr>)"

text \<open>
  The do-while loop of \<^verbatim>\<open>_getNextIndex\<close>, from the \<open>k\<close>-th random draw on; the result
  carries the cursor after the last draw.
\<close>

partial_function (option) LoopPlayer_draw :: "rng \<Rightarrow> nat \<Rightarrow> nat \<Rightarrow> int \<Rightarrow> (int \<times> nat) option" where
  "LoopPlayer_draw rnd k n currentIndex =
     (let nextIndex = \<lfloor>Math_random rnd k * real n\<rfloor>
      in if nextIndex = currentIndex \<and> n > 1 then LoopPlayer_draw rnd (Suc k) n currentIndex
         else Some (nextIndex, Suc k))"

declare LoopPlayer_draw.simps [code]

definition LoopPlayer_getNextIndex :: "rng \<Rightarrow> nat \<Rightarrow> LoopPlayer \<Rightarrow> (int \<times> nat) option" where
  "LoopPlayer_getNextIndex rnd k p =
     (if length (lp_buffers p) = 0 then Some (- 1, k)
      else if length (lp_buffers p) = 1 then Some (0, k)
      else LoopPlayer_draw rnd k (length (lp_buffers p)) (lp_currentIndex p))"

text \<open>
  \<^verbatim>\<open>_playNext\<close>: the nodes of the outgoing track are faded and released by a timer of
  their own and the player keeps no reference to them, so they leave the model here.
\<close>

definition LoopPlayer_playNext ::
    "bool \<Rightarrow> real \<Rightarrow> rng \<Rightarrow> nat \<Rightarrow> LoopPlayer \<Rightarrow> (LoopPlayer \<times> nat) option" where
  "LoopPlayer_playNext isFirst now rnd k p =
     (if \<not> lp_isPlaying p then Some (p, k)
      else
        case LoopPlayer_getNextIndex rnd k p of
          None \<Rightarrow> None
        | Some (nextIndex, k') \<Rightarrow>
            if nextIndex = - 1 then Some (p, k')
            else
              let buffer = lp_buffers p ! nat nextIndex;
                  source = \<lparr>src_buffer = buffer, src_loop = False, src_playbackRate = 1, src_detune = 0\<rparr>;
                  fadeTime = (if isFirst then 1.5 else lp_crossfadeDuration p);
                  gainNode = linearRampToValueAtTime 1 (now + fadeTime) (setValueAtTime 0 now (new_param 0));
                  nextPlayTime = (buf_duration buffer - lp_crossfadeDuration p) * 1000
              in Some (p\<lparr>lp_currentIndex := nextIndex,
                         lp_currentSource := Some source,
                         lp_currentGain := Some gainNode,
                         lp_nextTimeout := Some (now + max nextPlayTime 1000 / 1000)\<rparr>, k'))"

definition LoopPlayer_start :: "real \<Rightarrow> rng \<Rightarrow> nat \<Rightarrow> LoopPlayer \<Rightarrow> (LoopPlayer \<times> nat) option" where
  "LoopPlayer_start now rnd k p =
     (if \<not> lp_isLoaded p then Some (p, k)
      else if lp_isPlaying p then Some (p, k)
      else LoopPlayer_playNext True now rnd k (p\<lparr>lp_isPlaying := True\<rparr>))"

text \<open>The callback of the next-track timer.\<close>

definition LoopPlayer_onTimeout :: "real \<Rightarrow> rng \<Rightarrow> nat \<Rightarrow> LoopPlayer \<Rightarrow> (LoopPlayer \<times> nat) option" where
  "LoopPlayer_onTimeout now rnd k p =
     (if lp_isPlaying p then LoopPlayer_playNext False now rnd k p else Some (p, k))"

text \<open>
  \<^verbatim>\<open>stop\<close> runs in two parts. The first part runs at the call and returns the delay of
  the timer the call then awaits, \<open>None\<close> when it returns without awaiting; the second
  part runs when that timer fires.
\<close>

definition LoopPlayer_stop_begin :: "real \<Rightarrow> real \<Rightarrow> LoopPlayer \<Rightarrow> LoopPlayer \<times> real option" where
  "LoopPlayer_stop_begin fadeTime now p =
     (if \<not> lp_isPlaying p then (p, None)
      else
        let p1 = p\<lparr>lp_isPlaying := False, lp_nextTimeout := None\<rparr>
        in case (lp_currentGain p1, lp_currentSource p1) of
             (Some gain, Some source) \<Rightarrow>
               (p1\<lparr>lp_currentGain :=
                     Some (linearRampToValueAtTime 0 (now + fadeTime)
                            (setValueAtTime (current_value gain) now gain))\<rparr>,
                Some fadeTime)
           | _ \<Rightarrow> (p1, None))"

definition LoopPlayer_stop_finish :: "LoopPlayer \<Rightarrow> LoopPlayer" where
  "LoopPlayer_stop_finish p = p\<lparr>lp_currentSource := None, lp_currentGain := None\<rparr>"

subsection \<open>CafePlayer.js\<close>

record CafePlayer =
  cp_ambienceUrl :: "string option"
  cp_sfxUrls :: "string list"
  cp_sfxInterval :: real
  cp_connected :: bool
  cp_ambienceBuffer :: "AudioBuffer option"
  cp_ambienceSource :: "SourceNode option"
  cp_ambienceGain :: AudioParam
  cp_sfxBuffers :: "AudioBuffer list"
  cp_isPlaying :: bool
  cp_isLoaded :: bool
  cp_sfxTimer :: "real option"

definition CafePlayer_new :: "string option \<Rightarrow> string list \<Rightarrow> real option \<Rightarrow> CafePlayer" where
  "CafePlayer_new ambienceUrl sfxUrls opt_sfxInterval =
     \<lparr>cp_ambienceUrl = ambienceUrl, cp_sfxUrls = sfxUrls,
      cp_sfxInterval = js_or opt_sfxInterval 8, cp_connected = False,
      cp_ambienceBuffer = None, cp_ambienceSource = None, cp_ambienceGain = new_param 1.0,
      cp_sfxBuffers = [], cp_isPlaying = False, cp_isLoaded = False, cp_sfxTimer = None\<rparr>"

definition CafePlayer_load :: "fetch_env \<Rightarrow> CafePlayer \<Rightarrow> CafePlayer" where
  "CafePlayer_load fetch p =
     (let p1 = (case cp_ambienceUrl p of
                  None \<Rightarrow> p
                | Some url \<Rightarrow> if url = [] then p else p\<lparr>cp_ambienceBuffer := fetch url\<rparr>);
          p2 = p1\<lparr>cp_sfxBuffers := loaded_buffers fetch (cp_sfxUrls p1)\<rparr>
      in p2\<lparr>cp_isLoaded := (cp_ambienceBuffer p2 \<noteq> None)\<rparr>)"

definition CafePlayer_startSfx :: "real \<Rightarrow> rng \<Rightarrow> nat \<Rightarrow> CafePlayer \<Rightarrow> CafePlayer \<times> nat" where
  "CafePlayer_startSfx now rnd k p =
     (if length (cp_sfxBuffers p) = 0 then (p, k)
      else (p\<lparr>cp_sfxTimer := Some (now + (2000 + Math_random rnd k * 3000) / 1000)\<rparr>, Suc k))"

definition CafePlayer_start :: "real \<Rightarrow> rng \<Rightarrow> nat \<Rightarrow> CafePlayer \<Rightarrow> CafePlayer \<times> nat" where
  "CafePlayer_start now rnd k p =
     (if \<not> cp_isLoaded p \<or> cp_isPlaying p then (p, k)
      else
        let p1 = p\<lparr>cp_isPlaying := True\<rparr>;
            p2 = (case cp_ambienceBuffer p1 of
                    None \<Rightarrow> p1
                  | Some buffer \<Rightarrow>
                      p1\<lparr>cp_ambienceSource :=
                            Some \<lparr>src_buffer = buffer, src_loop = True,
                                  src_playbackRate = 1, src_detune = 0\<rparr>,
                         cp_ambienceGain :=
                            linearRampToValueAtTime 1.0 (now + 1.5)
                              (setValueAtTime 0 now (cp_ambienceGain p1))\<rparr>)
        in CafePlayer_startSfx now rnd k p2)"

definition CafePlayer_stop_begin :: "real \<Rightarrow> real \<Rightarrow> CafePlayer \<Rightarrow> CafePlayer \<times> real option" where
  "CafePlayer_stop_begin fadeTime now p =
     (if \<not> cp_isPlaying p then (p, None)
      else
        (p\<lparr>cp_isPlaying := False, cp_sfxTimer := None,
           cp_ambienceGain :=
             linearRampToValueAtTime 0 (now + fadeTime)
               (setValueAtTime (current_value (cp_ambienceGain p)) now (cp_ambienceGain p))\<rparr>,
         Some fadeTime))"

definition CafePlayer_stop_finish :: "CafePlayer \<Rightarrow> CafePlayer" where
  "CafePlayer_stop_finish p = p\<lparr>cp_ambienceSource := None\<rparr>"

subsection \<open>WindSynth.js and WindPlayer.js\<close>

text \<open>
  Of the synthesizer the player and the engine see the playing flag and the gain of its
  output, which \<^verbatim>\<open>fadeIn\<close> and \<^verbatim>\<open>fadeOut\<close> of BaseSynth.js ramp; its noise source,
  filters and gust timers stay inside it. \<^verbatim>\<open>stop\<close> clears the flag after the fade-out.
\<close>

record WindSynth =
  ws_isPlaying :: bool
  ws_output :: AudioParam

definition WindSynth_new :: WindSynth where
  "WindSynth_new = \<lparr>ws_isPlaying = False, ws_output = new_param 1\<rparr>"

definition fadeIn :: "real \<Rightarrow> real \<Rightarrow> real \<Rightarrow> AudioParam \<Rightarrow> AudioParam" where
  "fadeIn duration targetVolume now gain =
     linearRampToValueAtTime targetVolume (now + duration)
       (setValueAtTime 0 now (cancelScheduledValues now gain))"

definition fadeOut :: "real \<Rightarrow> real \<Rightarrow> AudioParam \<Rightarrow> AudioParam" where
  "fadeOut duration now gain =
     (let currentVolume = current_value gain
      in linearRampToValueAtTime 0 (now + duration)
           (setValueAtTime currentVolume now (cancelScheduledValues now gain)))"

definition WindSynth_start :: "real \<Rightarrow> WindSynth \<Rightarrow> WindSynth" where
  "WindSynth_start now s =
     (if ws_isPlaying s then s
      else s\<lparr>ws_isPlaying := True, ws_output := fadeIn 1.5 1 now (ws_output s)\<rparr>)"

definition WindSynth_stop_begin :: "real \<Rightarrow> real \<Rightarrow> WindSynth \<Rightarrow> WindSynth \<times> real option" where
  "WindSynth_stop_begin fadeTime now s =
     (if \<not> ws_isPlaying s then (s, None)
      else (s\<lparr>ws_output := fadeOut fadeTime now (ws_output s)\<rparr>, Some fadeTime))"

definition WindSynth_stop_finish :: "WindSynth \<Rightarrow> WindSynth" where
  "WindSynth_stop_finish s = s\<lparr>ws_isPlaying := False\<rparr>"

record WindPlayer =
  wp_softWindUrls :: "string list"
  wp_synthMix :: real
  wp_recordingMix :: real
  wp_crossfadeDuration :: real
  wp_connected :: bool
  wp_windSynth :: WindSynth
  wp_synthGain :: AudioParam
  wp_recordingBuffers :: "AudioBuffer list"
  wp_currentSource :: "SourceNode option"
  wp_recordingGain :: AudioParam
  wp_isPlaying :: bool
  wp_isLoaded :: bool
  wp_crossfadeTimer :: "real option"
  wp_currentBufferIndex :: int

definition WindPlayer_new :: "string list \<Rightarrow> real option \<Rightarrow> real option \<Rightarrow> real option \<Rightarrow> WindPlayer" where
  "WindPlayer_new softWindUrls opt_synthMix opt_recordingMix opt_crossfadeDuration =
     (let synthMix = js_nullish opt_synthMix 0.4;
          recordingMix = js_nullish opt_recordingMix 0.6
      in \<lparr>wp_softWindUrls = softWindUrls, wp_synthMix = synthMix, wp_recordingMix = recordingMix,
          wp_crossfadeDuration = js_or opt_crossfadeDuration 4, wp_connected = False,
          wp_windSynth = WindSynth_new, wp_synthGain = new_param synthMix,
          wp_recordingBuffers = [], wp_currentSource = None,
          wp_recordingGain = new_param recordingMix,
          wp_isPlaying = False, wp_isLoaded = False, wp_crossfadeTimer = None,
          wp_currentBufferIndex = - 1\<rparr>)"

definition WindPlayer_load :: "fetch_env \<Rightarrow> WindPlayer \<Rightarrow> WindPlayer" where
  "WindPlayer_load fetch p =
     (let p1 = (if length (wp_softWindUrls p) > 0
                then p\<lparr>wp_recordingBuffers := loaded_buffers fetch (wp_softWindUrls p)\<rparr>
                else p)
      in p1\<lparr>wp_isLoaded := True\<rparr>)"

partial_function (option) WindPlayer_draw :: "rng \<Rightarrow> nat \<Rightarrow> nat \<Rightarrow> int \<Rightarrow> (int \<times> nat) option" where
  "WindPlayer_draw rnd k n currentBufferIndex =
     (let index = \<lfloor>Math_random rnd k * real n\<rfloor>
      in if index = currentBufferIndex then WindPlayer_draw rnd (Suc k) n currentBufferIndex
         else Some (index, Suc k))"

declare WindPlayer_draw.simps [code]

definition WindPlayer_getRandomBufferIndex :: "rng \<Rightarrow> nat \<Rightarrow> WindPlayer \<Rightarrow> (int \<times> nat) option" where
  "WindPlayer_getRandomBufferIndex rnd k p =
     (if length (wp_recordingBuffers p) = 1 then Some (0, k)
      else WindPlayer_draw rnd k (length (wp_recordingBuffers p)) (wp_currentBufferIndex p))"

text \<open>
  The part that \<^verbatim>\<open>_startRecordingLayer\<close> and \<^verbatim>\<open>_performCrossfade\<close> share: pick a
  recording, make its source with a random rate and detune, and set the crossfade
  timer. The gain nodes that \<^verbatim>\<open>_performCrossfade\<close> makes for the two sources are
  local to it.
\<close>

definition WindPlayer_nextSource :: "real \<Rightarrow> rng \<Rightarrow> nat \<Rightarrow> WindPlayer \<Rightarrow> (WindPlayer \<times> nat) option" where
  "WindPlayer_nextSource now rnd k p =
     (case WindPlayer_getRandomBufferIndex rnd k p of
        None \<Rightarrow> None
      | Some (index, k1) \<Rightarrow>
          let buffer = wp_recordingBuffers p ! nat index;
              playbackRate = 0.95 + Math_random rnd k1 * 0.1;
              detune = (Math_random rnd (Suc k1) - 0.5) * 100;
              source = \<lparr>src_buffer = buffer, src_loop = False,
                        src_playbackRate = playbackRate, src_detune = detune\<rparr>;
              bufferDuration = buf_duration buffer / playbackRate;
              fadeStartTime = (bufferDuration - wp_crossfadeDuration p) * 1000
          in Some (p\<lparr>wp_currentBufferIndex := index, wp_currentSource := Some source,
                     wp_crossfadeTimer := Some (now + max fadeStartTime 1000 / 1000)\<rparr>,
                   Suc (Suc k1)))"

definition WindPlayer_startRecordingLayer ::
    "real \<Rightarrow> rng \<Rightarrow> nat \<Rightarrow> WindPlayer \<Rightarrow> (WindPlayer \<times> nat) option" where
  "WindPlayer_startRecordingLayer now rnd k p =
     (if length (wp_recordingBuffers p) = 0 then Some (p, k)
      else
        case WindPlayer_nextSource now rnd k p of
          None \<Rightarrow> None
        | Some (p1, k1) \<Rightarrow>
            Some (p1\<lparr>wp_recordingGain :=
                       linearRampToValueAtTime (wp_recordingMix p1) (now + 2)
                         (setValueAtTime 0 now (wp_recordingGain p1))\<rparr>, k1))"

definition WindPlayer_start :: "real \<Rightarrow> rng \<Rightarrow> nat \<Rightarrow> WindPlayer \<Rightarrow> (WindPlayer \<times> nat) option" where
  "WindPlayer_start now rnd k p =
     (if \<not> wp_isLoaded p \<or> wp_isPlaying p then Some (p, k)
      else
        let p1 = p\<lparr>wp_isPlaying := True\<rparr>;
            p2 = p1\<lparr>wp_windSynth := WindSynth_start now (wp_windSynth p1)\<rparr>;
            p3 = p2\<lparr>wp_synthGain :=
                      linearRampToValueAtTime (wp_synthMix p2) (now + 1.5)
                        (setValueAtTime 0 now (wp_synthGain p2))\<rparr>
        in WindPlayer_startRecordingLayer now rnd k p3)"

definition WindPlayer_performCrossfade ::
    "real \<Rightarrow> rng \<Rightarrow> nat \<Rightarrow> WindPlayer \<Rightarrow> (WindPlayer \<times> nat) option" where
  "WindPlayer_performCrossfade now rnd k p =
     (if \<not> wp_isPlaying p \<or> length (wp_recordingBuffers p) = 0 then Some (p, k)
      else WindPlayer_nextSource now rnd k p)"

text \<open>
  \<^verbatim>\<open>stop\<close> awaits the stop of the synthesizer and then a timer of its own; the first
  part returns the sum of the two delays.
\<close>

definition WindPlayer_stop_begin :: "real \<Rightarrow> real \<Rightarrow> WindPlayer \<Rightarrow> WindPlayer \<times> real option" where
  "WindPlayer_stop_begin fadeTime now p =
     (if \<not> wp_isPlaying p then (p, None)
      else
        let (synth, synthWait) = WindSynth_stop_begin fadeTime now (wp_windSynth p)
        in (p\<lparr>wp_isPlaying := False, wp_crossfadeTimer := None,
              wp_synthGain :=
                linearRampToValueAtTime 0 (now + fadeTime)
                  (setValueAtTime (current_value (wp_synthGain p)) now (wp_synthGain p)),
              wp_recordingGain :=
                linearRampToValueAtTime 0 (now + fadeTime)
                  (setValueAtTime (current_value (wp_recordingGain p)) now (wp_recordingGain p)),
              wp_windSynth := synth\<rparr>,
            Some ((case synthWait of None \<Rightarrow> 0 | Some d \<Rightarrow> d) + fadeTime)))"

definition WindPlayer_stop_finish :: "WindPlayer \<Rightarrow> WindPlayer" where
  "WindPlayer_stop_finish p =
     p\<lparr>wp_windSynth := WindSynth_stop_finish (wp_windSynth p), wp_currentSource := None\<rparr>"

subsection \<open>The three players behind one interface\<close>

datatype Player = Loop LoopPlayer | Cafe CafePlayer | Wind WindPlayer

fun player_isLoaded :: "Player \<Rightarrow> bool" where
  "player_isLoaded (Loop p) = lp_isLoaded p"
| "player_isLoaded (Cafe p) = cp_isLoaded p"
| "player_isLoaded (Wind p) = wp_isLoaded p"


fun player_connect :: "Player \<Rightarrow> Player" where
  "player_connect (Loop p) = Loop (p\<lparr>lp_connected := True\<rparr>)"
| "player_connect (Cafe p) = Cafe (p\<lparr>cp_connected := True\<rparr>)"
| "player_connect (Wind p) = Wind (p\<lparr>wp_connected := True\<rparr>)"

fun player_start :: "real \<Rightarrow> rng \<Rightarrow> nat \<Rightarrow> Player \<Rightarrow> (Player \<times> nat) option" where
  "player_start now rnd k (Loop p) = map_option (apfst Loop) (LoopPlayer_start now rnd k p)"
| "player_start now rnd k (Cafe p) = Some (apfst Cafe (CafePlayer_start now rnd k p))"
| "player_start now rnd k (Wind p) = map_option (apfst Wind) (WindPlayer_start now rnd k p)"

fun player_stop_begin :: "real \<Rightarrow> real \<Rightarrow> Player \<Rightarrow> Player \<times> real option" where
  "player_stop_begin fadeTime now (Loop p) = apfst Loop (LoopPlayer_stop_begin fadeTime now p)"
| "player_stop_begin fadeTime now (Cafe p) = apfst Cafe (CafePlayer_stop_begin fadeTime now p)"
| "player_stop_begin fadeTime now (Wind p) = apfst Wind (WindPlayer_stop_begin fadeTime now p)"

fun player_stop_finish :: "Player \<Rightarrow> Player" where
  "player_stop_finish (Loop p) = Loop (LoopPlayer_stop_finish p)"
| "player_stop_finish (Cafe p) = Cafe (CafePlayer_stop_finish p)"
| "player_stop_finish (Wind p) = Wind (WindPlayer_stop_finish p)"



section \<open>AudioEngine.js\<close>

text \<open>
  A scene configuration is a JavaScript object; every property may be absent. The
  configured scenes are kept with the order of their keys.
\<close>

record SceneConfig =
  cfg_type :: "string option"
  cfg_files :: "string list option"
  cfg_crossfadeDuration :: "real option"
  cfg_ambience :: "string option"
  cfg_sfx :: "string list option"
  cfg_sfxInterval :: "real option"
  cfg_softWindFiles :: "string list option"
  cfg_synthMix :: "real option"
  cfg_recordingMix :: "real option"

record AudioContext =
  ctx_sampleRate :: nat

text \<open>
  Players are objects: \<open>eng_heap\<close> holds them, and the map \<open>eng_players\<close> and the field
  \<open>eng_currentPlayer\<close> hold references, which are positions in the heap. \<open>eng_detached\<close>
  and \<open>eng_preloads\<close> are the pending work of the event loop on behalf of the engine:
  the second parts of the player stops that were started and not awaited, each with the
  time at which its timer is due and the player it belongs to, and the scene loads that
  \<^verbatim>\<open>_preloadScenes\<close> started and did not await.
\<close>

record AudioEngine =
  eng_defaultVolume :: real
  eng_crossfadeDuration :: real
  eng_scenes :: "(string \<times> SceneConfig) list"
  eng_audioContext :: "AudioContext option"
  eng_masterGain :: "AudioParam option"
  eng_analyzer :: "AudioAnalyzer option"
  eng_players :: "string \<rightharpoonup> nat"
  eng_currentPlayer :: "nat option"
  eng_currentScene :: "string option"
  eng_isInitialized :: bool
  eng_isPlaying :: bool
  eng_animationFrameId :: "nat option"
  eng_loadingStatus :: "string \<rightharpoonup> bool"
  eng_heap :: "Player list"
  eng_detached :: "(real \<times> nat) list"
  eng_preloads :: "(string \<times> (Player \<times> string list) option) list"

definition AudioEngine_new :: "real \<Rightarrow> real \<Rightarrow> (string \<times> SceneConfig) list \<Rightarrow> AudioEngine" where
  "AudioEngine_new defaultVolume crossfadeDuration scenes =
     \<lparr>eng_defaultVolume = defaultVolume, eng_crossfadeDuration = crossfadeDuration,
      eng_scenes = scenes, eng_audioContext = None, eng_masterGain = None,
      eng_analyzer = None, eng_players = Map.empty, eng_currentPlayer = None,
      eng_currentScene = None, eng_isInitialized = False, eng_isPlaying = False,
      eng_animationFrameId = None, eng_loadingStatus = Map.empty, eng_heap = [],
      eng_detached = [], eng_preloads = []\<rparr>"

text \<open>
  \<^verbatim>\<open>_loadScene\<close> up to its \<^verbatim>\<open>await\<close>: the result carries the player under construction
  and the URLs its \<^verbatim>\<open>load\<close> is called with, or \<open>None\<close> when the function has returned.
  The constructors of the players call the audio context, so they throw when it is gone;
  the handler of \<^verbatim>\<open>_loadScene\<close> catches that.
\<close>

definition loadScene_begin :: "string \<Rightarrow> AudioEngine \<Rightarrow> AudioEngine \<times> (Player \<times> string list) option" where
  "loadScene_begin scene e =
     (if eng_players e scene \<noteq> None then (e, None)
      else
        case map_of (eng_scenes e) scene of
          None \<Rightarrow> (e, None)
        | Some config \<Rightarrow>
            let e1 = e\<lparr>eng_loadingStatus := (eng_loadingStatus e)(scene \<mapsto> True)\<rparr>;
                caught = e1\<lparr>eng_loadingStatus := (eng_loadingStatus e1)(scene \<mapsto> False)\<rparr>
            in if cfg_type config = Some ''cafe'' then
                 (if eng_audioContext e1 = None then (caught, None)
                  else (e1, Some (Cafe (CafePlayer_new (cfg_ambience config)
                                          (case cfg_sfx config of None \<Rightarrow> [] | Some urls \<Rightarrow> urls)
                                          (Some (js_or (cfg_sfxInterval config) 8))), [])))
               else if cfg_type config = Some ''wind'' then
                 (if eng_audioContext e1 = None then (caught, None)
                  else (e1, Some (Wind (WindPlayer_new
                                          (case cfg_softWindFiles config of None \<Rightarrow> [] | Some urls \<Rightarrow> urls)
                                          (Some (js_nullish (cfg_synthMix config) 0.35))
                                          (Some (js_nullish (cfg_recordingMix config) 0.65))
                                          (Some (js_or (cfg_crossfadeDuration config) 4))), [])))
               else
                 (case cfg_files config of
                    None \<Rightarrow> (e1, None)
                  | Some files \<Rightarrow>
                      if length files = 0 then (e1, None)
                      else if eng_audioContext e1 = None then (caught, None)
                      else (e1, Some (Loop (LoopPlayer_new
                                              (Some (js_or (cfg_crossfadeDuration config) 2))), files))))"

fun player_load :: "fetch_env \<Rightarrow> string list \<Rightarrow> Player \<Rightarrow> Player" where
  "player_load fetch urls (Loop p) = Loop (LoopPlayer_load fetch urls p)"
| "player_load fetch urls (Cafe p) = Cafe (CafePlayer_load fetch p)"
| "player_load fetch urls (Wind p) = Wind (WindPlayer_load fetch p)"

text \<open>
  \<^verbatim>\<open>_loadScene\<close> after the load of the player has settled. Connecting to a master gain
  that is gone throws, and the handler catches it.
\<close>

definition loadScene_finish :: "string \<Rightarrow> Player \<Rightarrow> AudioEngine \<Rightarrow> AudioEngine" where
  "loadScene_finish scene player e =
     (let e1 = (case eng_masterGain e of
                  None \<Rightarrow> e
                | Some masterGain \<Rightarrow>
                    e\<lparr>eng_heap := eng_heap e @ [player_connect player],
                      eng_players := (eng_players e)(scene \<mapsto> length (eng_heap e))\<rparr>)
      in e1\<lparr>eng_loadingStatus := (eng_loadingStatus e1)(scene \<mapsto> False)\<rparr>)"

definition loadScene_resume ::
    "fetch_env \<Rightarrow> string \<Rightarrow> (Player \<times> string list) option \<Rightarrow> AudioEngine \<Rightarrow> AudioEngine" where
  "loadScene_resume fetch scene task e =
     (case task of
        None \<Rightarrow> e
      | Some (player, urls) \<Rightarrow> loadScene_finish scene (player_load fetch urls player) e)"

text \<open>The whole of \<^verbatim>\<open>_loadScene\<close>, run without anything in between.\<close>

definition loadScene :: "fetch_env \<Rightarrow> string \<Rightarrow> AudioEngine \<Rightarrow> AudioEngine" where
  "loadScene fetch scene e =
     (let (e1, task) = loadScene_begin scene e in loadScene_resume fetch scene task e1)"

definition isSceneLoaded :: "string \<Rightarrow> AudioEngine \<Rightarrow> bool" where
  "isSceneLoaded scene e =
     (case eng_players e scene of
        None \<Rightarrow> False
      | Some r \<Rightarrow> player_isLoaded (eng_heap e ! r))"

text \<open>A stop of the player at \<open>r\<close> that the caller does not await.\<close>

definition detached_stop :: "real \<Rightarrow> real \<Rightarrow> nat \<Rightarrow> AudioEngine \<Rightarrow> AudioEngine" where
  "detached_stop fadeTime now r e =
     (let (player, wait) = player_stop_begin fadeTime now (eng_heap e ! r);
          e1 = e\<lparr>eng_heap := (eng_heap e)[r := player]\<rparr>
      in case wait of
           None \<Rightarrow> e1
         | Some delay \<Rightarrow> e1\<lparr>eng_detached := eng_detached e1 @ [(now + delay, r)]\<rparr>)"

definition start_player :: "real \<Rightarrow> rng \<Rightarrow> nat \<Rightarrow> nat \<Rightarrow> AudioEngine \<Rightarrow> (AudioEngine \<times> nat) option" where
  "start_player now rnd k r e =
     (case player_start now rnd k (eng_heap e ! r) of
        None \<Rightarrow> None
      | Some (player, k') \<Rightarrow> Some (e\<lparr>eng_heap := (eng_heap e)[r := player]\<rparr>, k'))"

text \<open>
  \<^verbatim>\<open>play\<close> from the point where the scene is known to be loaded: stop the current
  player, start the player of the scene, set the fields. \<open>None\<close> stands for a call that
  does not return: the track selection of the player runs forever, or the map has no
  player for the scene, which the check before excludes.
\<close>

definition play_start :: "real \<Rightarrow> rng \<Rightarrow> nat \<Rightarrow> string \<Rightarrow> AudioEngine \<Rightarrow> (AudioEngine \<times> nat) option" where
  "play_start now rnd k scene e =
     (let e1 = (case eng_currentPlayer e of
                  None \<Rightarrow> e
                | Some current \<Rightarrow> detached_stop 0 now current e)
      in case eng_players e1 scene of
           None \<Rightarrow> None
         | Some player \<Rightarrow>
             (case start_player now rnd k player e1 of
                None \<Rightarrow> None
              | Some (e2, k') \<Rightarrow>
                  Some (e2\<lparr>eng_currentPlayer := Some player,
                           eng_currentScene := Some scene,
                           eng_isPlaying := True\<rparr>, k')))"

text \<open>
  An engine operation either has run to its end or is suspended in
  \<^verbatim>\<open>await this._loadScene(scene)\<close>.
\<close>

datatype engine_pending =
  Finished
| AwaitLoad "(Player \<times> string list) option"

definition play_begin ::
    "real \<Rightarrow> rng \<Rightarrow> nat \<Rightarrow> string \<Rightarrow> AudioEngine \<Rightarrow> (AudioEngine \<times> nat \<times> engine_pending) option" where
  "play_begin now rnd k scene e =
     (if \<not> eng_isInitialized e then Some (e, k, Finished)
      else if eng_currentScene e = Some scene \<and> eng_isPlaying e then Some (e, k, Finished)
      else if \<not> isSceneLoaded scene e then
        (let (e1, task) = loadScene_begin scene e in Some (e1, k, AwaitLoad task))
      else map_option (\<lambda>(e1, k'). (e1, k', Finished)) (play_start now rnd k scene e))"

definition play_resume ::
    "fetch_env \<Rightarrow> real \<Rightarrow> rng \<Rightarrow> nat \<Rightarrow> string \<Rightarrow> (Player \<times> string list) option \<Rightarrow> AudioEngine \<Rightarrow>
     (AudioEngine \<times> nat) option" where
  "play_resume fetch now rnd k scene task e =
     (let e1 = loadScene_resume fetch scene task e
      in if \<not> isSceneLoaded scene e1 then Some (e1, k)
         else play_start now rnd k scene e1)"


definition switchScene_start ::
    "real \<Rightarrow> real \<Rightarrow> rng \<Rightarrow> nat \<Rightarrow> string \<Rightarrow> AudioEngine \<Rightarrow> (AudioEngine \<times> nat) option" where
  "switchScene_start fadeTime now rnd k scene e =
     (let oldPlayer = eng_currentPlayer e
      in case eng_players e scene of
           None \<Rightarrow> None
         | Some newPlayer \<Rightarrow>
             (case start_player now rnd k newPlayer e of
                None \<Rightarrow> None
              | Some (e1, k') \<Rightarrow>
                  let e2 = e1\<lparr>eng_currentPlayer := Some newPlayer,
                              eng_currentScene := Some scene,
                              eng_isPlaying := True\<rparr>
                  in Some (case oldPlayer of
                             None \<Rightarrow> e2
                           | Some old \<Rightarrow> detached_stop fadeTime now old e2, k')))"

definition switchScene_begin ::
    "real option \<Rightarrow> real \<Rightarrow> rng \<Rightarrow> nat \<Rightarrow> string \<Rightarrow> AudioEngine \<Rightarrow>
     (AudioEngine \<times> nat \<times> engine_pending) option" where
  "switchScene_begin opt_fadeTime now rnd k scene e =
     (let fadeTime = js_nullish opt_fadeTime (eng_crossfadeDuration e)
      in if \<not> eng_isInitialized e then Some (e, k, Finished)
         else if eng_currentScene e = Some scene then Some (e, k, Finished)
         else if \<not> isSceneLoaded scene e then
           (let (e1, task) = loadScene_begin scene e in Some (e1, k, AwaitLoad task))
         else map_option (\<lambda>(e1, k'). (e1, k', Finished))
                (switchScene_start fadeTime now rnd k scene e))"

definition switchScene_resume ::
    "fetch_env \<Rightarrow> real option \<Rightarrow> real \<Rightarrow> rng \<Rightarrow> nat \<Rightarrow> string \<Rightarrow> (Player \<times> string list) option \<Rightarrow>
     AudioEngine \<Rightarrow> (AudioEngine \<times> nat) option" where
  "switchScene_resume fetch opt_fadeTime now rnd k scene task e =
     (let fadeTime = js_nullish opt_fadeTime (eng_crossfadeDuration e);
          e1 = loadScene_resume fetch scene task e
      in if \<not> isSceneLoaded scene e1 then Some (e1, k)
         else switchScene_start fadeTime now rnd k scene e1)"




text \<open>A timer of a stop that nobody awaits fires.\<close>

definition detached_fire :: "real \<Rightarrow> AudioEngine \<Rightarrow> AudioEngine option" where
  "detached_fire t e =
     (case eng_detached e of
        [] \<Rightarrow> None
      | (due, r) # rest \<Rightarrow>
          if t < due then None
          else Some (e\<lparr>eng_heap := (eng_heap e)[r := player_stop_finish (eng_heap e ! r)],
                       eng_detached := rest\<rparr>))"


definition getVolume :: "AudioEngine \<Rightarrow> real" where
  "getVolume e = (case eng_masterGain e of None \<Rightarrow> 0 | Some gain \<Rightarrow> current_value gain)"

definition getAudioData :: "AudioEngine \<Rightarrow> SmoothedData" where
  "getAudioData e = (case eng_analyzer e of None \<Rightarrow> zero_data | Some a \<Rightarrow> getData a)"

text \<open>
  \<^verbatim>\<open>init\<close>, run as one step when the platform has answered: it refuses the audio
  context, it refuses to resume the suspended context, or it hands out a running
  context. The first component of the result is \<open>False\<close> when \<^verbatim>\<open>init\<close> throws. The
  analysis loop started here finds the engine not playing, so its first round does
  nothing but request the next frame.
\<close>

datatype platform = ContextRefused | ResumeRefused AudioContext | ContextRunning AudioContext

fun preloadScenes :: "string list \<Rightarrow> AudioEngine \<Rightarrow> AudioEngine" where
  "preloadScenes [] e = e"
| "preloadScenes (scene # scenes) e =
     (let (e1, task) = loadScene_begin scene e
      in preloadScenes scenes (e1\<lparr>eng_preloads := eng_preloads e1 @ [(scene, task)]\<rparr>))"

definition init :: "platform \<Rightarrow> AudioEngine \<Rightarrow> bool \<times> AudioEngine" where
  "init pf e =
     (if eng_isInitialized e then (True, e)
      else
        case pf of
          ContextRefused \<Rightarrow> (False, e)
        | ResumeRefused ctx \<Rightarrow> (False, e\<lparr>eng_audioContext := Some ctx\<rparr>)
        | ContextRunning ctx \<Rightarrow>
            (case AudioAnalyzer_new (ctx_sampleRate ctx) (Some 2048) (Some 0.85) of
               None \<Rightarrow> (False, e\<lparr>eng_audioContext := Some ctx,
                                 eng_masterGain := Some (new_param (eng_defaultVolume e))\<rparr>)
             | Some analyzer \<Rightarrow>
                 let e1 = e\<lparr>eng_audioContext := Some ctx,
                            eng_masterGain := Some (new_param (eng_defaultVolume e)),
                            eng_analyzer := Some analyzer,
                            eng_animationFrameId := Some 1,
                            eng_isInitialized := True\<rparr>
                 in (True, preloadScenes (map fst (eng_scenes e1)) e1)))"

text \<open>The first of the pending preloads settles.\<close>

definition preload_settle :: "fetch_env \<Rightarrow> AudioEngine \<Rightarrow> AudioEngine" where
  "preload_settle fetch e =
     (case eng_preloads e of
        [] \<Rightarrow> e
      | (scene, task) # rest \<Rightarrow> loadScene_resume fetch scene task (e\<lparr>eng_preloads := rest\<rparr>))"

text \<open>One round of the analysis loop, with the bytes the analyser node delivers.\<close>

definition analysis_frame :: "8 word list \<Rightarrow> 8 word list \<Rightarrow> AudioEngine \<Rightarrow> AudioEngine" where
  "analysis_frame node_freq node_time e =
     (case eng_analyzer e of
        None \<Rightarrow> e
      | Some a \<Rightarrow>
          if eng_isPlaying e then e\<lparr>eng_analyzer := Some (update node_freq node_time a)\<rparr> else e)"

section \<open>useStay.js\<close>

text \<open>
  The scenes the engine of the hook is made with (\<^verbatim>\<open>DEFAULT_SCENES\<close>); the last sound
  effect is written without the non-ASCII end of its file name.
\<close>

definition no_config :: SceneConfig where
  "no_config = \<lparr>cfg_type = None, cfg_files = None, cfg_crossfadeDuration = None,
     cfg_ambience = None, cfg_sfx = None, cfg_sfxInterval = None, cfg_softWindFiles = None,
     cfg_synthMix = None, cfg_recordingMix = None\<rparr>"

definition DEFAULT_SCENES :: "(string \<times> SceneConfig) list" where
  "DEFAULT_SCENES =
     [(''rain'', no_config\<lparr>cfg_files := Some
          [''src/audio/loops/rain/gentle-rain-from-window.mp3'',
           ''src/audio/loops/rain/rain-and-birds.mp3'',
           ''src/audio/loops/rain/rain-on-concrete-sound-30331.mp3''],
        cfg_crossfadeDuration := Some 3\<rparr>),
      (''cafe'', no_config\<lparr>cfg_type := Some ''cafe'',
        cfg_ambience := Some ''src/audio/loops/coffee/people-talking-at-cafe-ambience.mp3'',
        cfg_sfx := Some
          [''src/audio/loops/coffee/cup_spoon_hotwater.mp3'',
           ''src/audio/loops/coffee/glass-cup-set-down71326.mp3'',
           ''src/audio/loops/coffee/coffee-pouring-into-a-cup.mp3'',
           ''src/audio/loops/coffee/teacup-clink-sfx.mp3''],
        cfg_sfxInterval := Some 6\<rparr>),
      (''wind'', no_config\<lparr>cfg_type := Some ''wind'',
        cfg_softWindFiles := Some
          [''src/audio/loops/wind/storegraphic-soft-wind-314945.mp3'',
           ''src/audio/loops/wind/storegraphic-soft-wind-316392.mp3'',
           ''src/audio/loops/wind/storegraphic-soft-wind-477404.mp3'',
           ''src/audio/loops/wind/storegraphic-soft-wind-leaves-316393.mp3''],
        cfg_synthMix := Some 0.35, cfg_recordingMix := Some 0.65,
        cfg_crossfadeDuration := Some 4\<rparr>)]"

datatype PlaybackState = Idle | Switching | Playing

text \<open>
  The state of the hook: the React state a render sees, and the two refs that matter for
  scene switching. The callback \<^verbatim>\<open>switchScene\<close> reads \<^verbatim>\<open>currentScene\<close> and
  \<^verbatim>\<open>isPlaying\<close> from the render that made it, so a call carries them as arguments.
\<close>

record useStay =
  st_currentScene :: string
  st_isPlaying :: bool
  st_volume :: real
  st_playbackState :: PlaybackState
  engineRef :: "AudioEngine option"
  isSwitchingRef :: bool

definition FADE_DURATION :: real where
  "FADE_DURATION = 3"

definition DEFAULT_VOLUME :: real where
  "DEFAULT_VOLUME = 0.7"

definition useStay_mount :: useStay where
  "useStay_mount =
     \<lparr>st_currentScene = ''rain'', st_isPlaying = False, st_volume = DEFAULT_VOLUME,
      st_playbackState = Idle,
      engineRef = Some (AudioEngine_new DEFAULT_VOLUME 1.5 DEFAULT_SCENES),
      isSwitchingRef = False\<rparr>"

text \<open>
  Where a call of \<^verbatim>\<open>switchScene\<close> is suspended: in \<^verbatim>\<open>ensureInit\<close>, awaiting
  \<^verbatim>\<open>engine.init()\<close>, or holding the lock and awaiting the engine operation
  (\<^verbatim>\<open>engine.switchScene\<close> when the flag is set, \<^verbatim>\<open>engine.play\<close> otherwise).
\<close>

datatype hook_pending =
  AwaitInit string string bool
| AwaitEngine string bool bool engine_pending

text \<open>
  The call from the point where \<^verbatim>\<open>ensureInit\<close> has answered \<^verbatim>\<open>true\<close> up to the
  \<^verbatim>\<open>await\<close> of the engine operation. A result without a pending part is a call that
  has returned.
\<close>

definition switchScene_locked ::
    "string \<Rightarrow> bool \<Rightarrow> string \<Rightarrow> real \<Rightarrow> rng \<Rightarrow> nat \<Rightarrow> useStay \<Rightarrow>
     (useStay \<times> nat \<times> hook_pending option) option" where
  "switchScene_locked currentScene isPlaying newScene now rnd k h =
     (case engineRef h of
        None \<Rightarrow> Some (h, k, None)
      | Some engine \<Rightarrow>
          if isSwitchingRef h then Some (h, k, None)
          else if newScene = currentScene \<and> isPlaying then Some (h, k, None)
          else
            let h1 = h\<lparr>isSwitchingRef := True, st_playbackState := Switching\<rparr>;
                crossfade = (currentScene \<noteq> [] \<and> isPlaying \<and> newScene \<noteq> currentScene);
                called = (if crossfade
                          then switchScene_begin (Some FADE_DURATION) now rnd k newScene engine
                          else play_begin now rnd k newScene engine)
            in (case called of
                  None \<Rightarrow> None
                | Some (engine1, k1, pending) \<Rightarrow>
                    Some (h1\<lparr>engineRef := Some engine1\<rparr>, k1,
                          Some (AwaitEngine newScene isPlaying crossfade pending))))"

text \<open>
  A call of \<^verbatim>\<open>switchScene\<close>. With an engine that is initialised \<^verbatim>\<open>ensureInit\<close> answers
  without waiting for anything, so the call reaches the lock check in the same turn of
  the event loop.
\<close>

definition useStay_switchScene ::
    "string \<Rightarrow> bool \<Rightarrow> string \<Rightarrow> real \<Rightarrow> rng \<Rightarrow> nat \<Rightarrow> useStay \<Rightarrow>
     (useStay \<times> nat \<times> hook_pending option) option" where
  "useStay_switchScene currentScene isPlaying newScene now rnd k h =
     (case engineRef h of
        None \<Rightarrow> Some (h, k, None)
      | Some engine \<Rightarrow>
          if eng_isInitialized engine
          then switchScene_locked currentScene isPlaying newScene now rnd k h
          else Some (h, k, Some (AwaitInit newScene currentScene isPlaying)))"

text \<open>
  A suspended call goes on: the platform has answered \<^verbatim>\<open>init\<close>, or the engine operation
  has settled. \<open>rejects\<close> says that the promise of the engine operation rejects, which
  takes the call through its \<^verbatim>\<open>catch\<close> block.
\<close>

definition useStay_resume ::
    "fetch_env \<Rightarrow> platform \<Rightarrow> bool \<Rightarrow> real \<Rightarrow> rng \<Rightarrow> nat \<Rightarrow> hook_pending \<Rightarrow> useStay \<Rightarrow>
     (useStay \<times> nat \<times> hook_pending option) option" where
  "useStay_resume fetch pf rejects now rnd k pending h =
     (case engineRef h of
        None \<Rightarrow> Some (h, k, None)
      | Some engine \<Rightarrow>
          (case pending of
             AwaitInit newScene currentScene isPlaying \<Rightarrow>
               let (ready, engine1) = init pf engine;
                   h1 = h\<lparr>engineRef := Some engine1\<rparr>
               in if \<not> ready then Some (h1, k, None)
                  else switchScene_locked currentScene isPlaying newScene now rnd k h1
           | AwaitEngine newScene isPlaying crossfade engine_pending \<Rightarrow>
               (let settled =
                      (case engine_pending of
                         Finished \<Rightarrow> Some (engine, k)
                       | AwaitLoad task \<Rightarrow>
                           (if crossfade
                            then switchScene_resume fetch (Some FADE_DURATION) now rnd k newScene task engine
                            else play_resume fetch now rnd k newScene task engine))
                in (case settled of
                      None \<Rightarrow> None
                    | Some (engine1, k1) \<Rightarrow>
                        (if rejects
                         then Some (h\<lparr>engineRef := Some engine1,
                                      st_playbackState := (if isPlaying then Playing else Idle),
                                      isSwitchingRef := False\<rparr>, k1, None)
                         else Some (h\<lparr>engineRef := Some engine1,
                                      st_currentScene := newScene,
                                      st_isPlaying := True,
                                      st_playbackState := Playing,
                                      isSwitchingRef := False\<rparr>, k1, None))))))"

section \<open>Notions used in the proofs\<close>

text \<open>
  The state of the pink-noise filter after \<open>n\<close> samples, and the value after \<open>n\<close> steps
  of the recurrence \<open>x \<mapsto> a * x - c\<close>, which every stage of the filter follows while the
  white input stays at \<open>- 1\<close>.
\<close>

fun pink_run :: "rng \<Rightarrow> nat \<Rightarrow> nat \<Rightarrow> pink_state \<Rightarrow> pink_state" where
  "pink_run rnd i 0 s = s"
| "pink_run rnd i (Suc n) s = pink_run rnd (Suc i) n (fst (pink_step s (Math_random rnd i * 2 - 1)))"

definition geo :: "real \<Rightarrow> real \<Rightarrow> nat \<Rightarrow> real \<Rightarrow> real" where
  "geo a c n x = a ^ n * x - c * (1 - a ^ n) / (1 - a)"


text \<open>
  A random sequence never gets stuck on one index out of \<open>n\<close>: from any position on,
  some later draw selects an index other than any given one.
\<close>

definition never_stuck :: "rng \<Rightarrow> nat \<Rightarrow> bool" where
  "never_stuck rnd n = (\<forall>k c. \<exists>j. \<lfloor>Math_random rnd (k + j) * real n\<rfloor> \<noteq> c)"

text \<open>
  The track indices a playing Uniform Loop player goes through when its next-track
  timer fires \<open>m\<close> times (at the times \<open>clock (m - 1), \<dots>, clock 0\<close>), and the recording
  indices a playing blended player goes through in \<open>m\<close> crossfades.
\<close>

fun LoopPlayer_timeouts ::
    "(nat \<Rightarrow> real) \<Rightarrow> rng \<Rightarrow> nat \<Rightarrow> nat \<Rightarrow> LoopPlayer \<Rightarrow> (int list \<times> LoopPlayer \<times> nat) option" where
  "LoopPlayer_timeouts clock rnd k 0 p = Some ([], p, k)"
| "LoopPlayer_timeouts clock rnd k (Suc m) p =
     (case LoopPlayer_onTimeout (clock m) rnd k p of
        None \<Rightarrow> None
      | Some (p1, k1) \<Rightarrow>
          (case LoopPlayer_timeouts clock rnd k1 m p1 of
             None \<Rightarrow> None
           | Some (picks, p2, k2) \<Rightarrow> Some (lp_currentIndex p1 # picks, p2, k2)))"

fun WindPlayer_crossfades ::
    "(nat \<Rightarrow> real) \<Rightarrow> rng \<Rightarrow> nat \<Rightarrow> nat \<Rightarrow> WindPlayer \<Rightarrow> (int list \<times> WindPlayer \<times> nat) option" where
  "WindPlayer_crossfades clock rnd k 0 p = Some ([], p, k)"
| "WindPlayer_crossfades clock rnd k (Suc m) p =
     (case WindPlayer_performCrossfade (clock m) rnd k p of
        None \<Rightarrow> None
      | Some (p1, k1) \<Rightarrow>
          (case WindPlayer_crossfades clock rnd k1 m p1 of
             None \<Rightarrow> None
           | Some (picks, p2, k2) \<Rightarrow> Some (wp_currentBufferIndex p1 # picks, p2, k2)))"

text \<open>Concrete inputs for the witnesses.\<close>

definition alternating :: rng where
  "alternating k = (if even k then draw_zero else draw_half)"

definition two_urls :: "string list" where
  "two_urls = [''a.mp3'', ''b.mp3'']"

definition fetch_all :: fetch_env where
  "fetch_all url = Some \<lparr>buf_url = url, buf_duration = 10\<rparr>"

definition fetch_none :: fetch_env where
  "fetch_none url = None"

definition playing_LoopPlayer :: LoopPlayer where
  "playing_LoopPlayer =
     fst (the (LoopPlayer_start 0 alternating 0
       (LoopPlayer_load fetch_all two_urls (LoopPlayer_new (Some 3)))))"

definition playing_WindPlayer :: WindPlayer where
  "playing_WindPlayer =
     fst (the (WindPlayer_start 0 alternating 0
       (WindPlayer_load fetch_all (WindPlayer_new two_urls None None None))))"

definition one_buffer :: AudioBuffer where
  "one_buffer = \<lparr>buf_url = ''samples/raindrop_1.mp3'', buf_duration = 1\<rparr>"

definition quiet_options :: play_options where
  "quiet_options =
     \<lparr>opt_destination = None, opt_volume = Some 0.5, opt_playbackRate = None, opt_detune = Some 50\<rparr>"

text \<open>The engine of the hook after \<open>init\<close> on a platform that hands out a running context.\<close>

definition ready_engine :: AudioEngine where
  "ready_engine =
     snd (init (ContextRunning \<lparr>ctx_sampleRate = 44100\<rparr>)
            (AudioEngine_new DEFAULT_VOLUME 1.5 DEFAULT_SCENES))"

definition fetch_only :: "string \<Rightarrow> fetch_env" where
  "fetch_only good url = (if url = good then Some \<lparr>buf_url = url, buf_duration = 10\<rparr> else None)"

text \<open>The fields that the first part of a scene load leaves alone.\<close>

definition same_playback :: "AudioEngine \<Rightarrow> AudioEngine \<Rightarrow> bool" where
  "same_playback e e' =
     (eng_scenes e' = eng_scenes e \<and> eng_audioContext e' = eng_audioContext e \<and>
      eng_masterGain e' = eng_masterGain e \<and> eng_analyzer e' = eng_analyzer e \<and>
      eng_players e' = eng_players e \<and> eng_currentPlayer e' = eng_currentPlayer e \<and>
      eng_currentScene e' = eng_currentScene e \<and> eng_isInitialized e' = eng_isInitialized e \<and>
      eng_isPlaying e' = eng_isPlaying e \<and> eng_heap e' = eng_heap e \<and>
      eng_detached e' = eng_detached e \<and> eng_crossfadeDuration e' = eng_crossfadeDuration e \<and>
      eng_defaultVolume e' = eng_defaultVolume e)"






text \<open>What the hook keeps true: while the lock is held, its engine is initialised.\<close>

definition lock_inv :: "useStay \<Rightarrow> bool" where
  "lock_inv h = (isSwitchingRef h \<longrightarrow> (\<forall>engine. engineRef h = Some engine \<longrightarrow> eng_isInitialized engine))"

section \<open>Random draws\<close>

lemma Math_random_range: "0 \<le> Math_random rnd k \<and> Math_random rnd k < 1"
  using Rep_unit_real[of "rnd k"] by (simp add: Math_random_def)

lemma Math_random_zero: "Math_random (\<lambda>_. draw_zero) k = 0"
  by (simp add: Math_random_def draw_zero.rep_eq)

section \<open>Noise buffers\<close>

lemma white_noise_in_range:
  assumes "x \<in> set (createWhiteNoise sampleRate rnd)"
  shows "- 1 \<le> x \<and> x < 1"
proof -
  from assms obtain i where "x = Math_random rnd i * 2 - 1"
    by (auto simp: createWhiteNoise_def)
  then show ?thesis using Math_random_range[of rnd i] by simp
qed

lemma brown_fill_take: "take m (brown_fill rnd i (m + n) l) = brown_fill rnd i m l"
  by (induction m arbitrary: i l) (simp_all add: Let_def)

lemma brown_sample_16: "brown_fill (\<lambda>_. draw_zero) 0 88200 0 ! 16 < - 1"
proof -
  have "brown_fill (\<lambda>_. draw_zero) 0 88200 0 ! 16
      = take 17 (brown_fill (\<lambda>_. draw_zero) 0 (17 + 88183) 0) ! 16"
    by simp
  also have "\<dots> = brown_fill (\<lambda>_. draw_zero) 0 17 0 ! 16"
    by (simp only: brown_fill_take)
  also have "\<dots> < - 1"
    by (simp add: eval_nat_numeral Let_def Math_random_zero)
  finally show ?thesis .
qed

lemma pink_fill_nth:
  "n < m \<Longrightarrow>
   pink_fill rnd i m s ! n = snd (pink_step (pink_run rnd i n s) (Math_random rnd (i + n) * 2 - 1))"
proof (induction n arbitrary: i m s)
  case 0
  then obtain m' where "m = Suc m'" by (cases m) auto
  then show ?case by (simp add: Let_def split: prod.splits)
next
  case (Suc n)
  then obtain m' where m: "m = Suc m'" and "n < m'" by (cases m) auto
  then show ?case using Suc.IH[of m' "Suc i"] by (simp add: Let_def split: prod.splits)
qed

lemma geo_step:
  fixes a c x X :: real
  assumes "a \<noteq> 1"
  shows "X * (a * x - c) - c * (1 - X) / (1 - a) = (a * X) * x - c * (1 - a * X) / (1 - a)"
  using assms by (simp add: field_simps)

lemma geo_Suc: "a \<noteq> 1 \<Longrightarrow> geo a c n (a * x - c) = geo a c (Suc n) x"
  unfolding geo_def using geo_step[of a "a ^ n" x c] by simp

lemma pink_step_low:
  "b0 (fst (pink_step s (- 1))) = 0.99886 * b0 s - 0.0555179"
  "b1 (fst (pink_step s (- 1))) = 0.99332 * b1 s - 0.0750759"
  "b2 (fst (pink_step s (- 1))) = 0.96900 * b2 s - 0.1538520"
  "b3 (fst (pink_step s (- 1))) = 0.86650 * b3 s - 0.3104856"
  "b4 (fst (pink_step s (- 1))) = 0.55000 * b4 s - 0.5329522"
  "b5 (fst (pink_step s (- 1))) = - 0.7616 * b5 s - (- 0.0168980)"
  "b6 (fst (pink_step s (- 1))) = - 0.115926"
  by (simp_all add: pink_step_def Let_def)

lemma pink_run_Suc_low:
  "pink_run (\<lambda>_. draw_zero) i (Suc n) s = pink_run (\<lambda>_. draw_zero) (Suc i) n (fst (pink_step s (- 1)))"
  by (simp add: Math_random_zero)

lemma pink_run_low:
  "b0 (pink_run (\<lambda>_. draw_zero) i (Suc n) s) = geo 0.99886 0.0555179 (Suc n) (b0 s) \<and>
   b1 (pink_run (\<lambda>_. draw_zero) i (Suc n) s) = geo 0.99332 0.0750759 (Suc n) (b1 s) \<and>
   b2 (pink_run (\<lambda>_. draw_zero) i (Suc n) s) = geo 0.96900 0.1538520 (Suc n) (b2 s) \<and>
   b3 (pink_run (\<lambda>_. draw_zero) i (Suc n) s) = geo 0.86650 0.3104856 (Suc n) (b3 s) \<and>
   b4 (pink_run (\<lambda>_. draw_zero) i (Suc n) s) = geo 0.55000 0.5329522 (Suc n) (b4 s) \<and>
   b5 (pink_run (\<lambda>_. draw_zero) i (Suc n) s) = geo (- 0.7616) (- 0.0168980) (Suc n) (b5 s) \<and>
   b6 (pink_run (\<lambda>_. draw_zero) i (Suc n) s) = - 0.115926"
proof (induction n arbitrary: i s)
  case 0
  have "pink_run (\<lambda>_. draw_zero) i (Suc 0) s = fst (pink_step s (- 1))"
    by (simp add: Math_random_zero)
  then show ?case by (simp add: pink_step_low geo_def)
next
  case (Suc n)
  have ne: "(0.99886::real) \<noteq> 1" "(0.99332::real) \<noteq> 1" "(0.96900::real) \<noteq> 1"
    "(0.86650::real) \<noteq> 1" "(0.55000::real) \<noteq> 1" "(- 0.7616::real) \<noteq> 1"
    by simp_all
  show ?case
    unfolding pink_run_Suc_low[of i "Suc n" s]
    using Suc.IH[of "Suc i" "fst (pink_step s (- 1))"]
    by (simp only: pink_step_low geo_Suc[OF ne(1)] geo_Suc[OF ne(2)] geo_Suc[OF ne(3)]
        geo_Suc[OF ne(4)] geo_Suc[OF ne(5)] geo_Suc[OF ne(6)] simp_thms)
qed

lemma pink_init_fields:
  "b0 pink_init = 0" "b1 pink_init = 0" "b2 pink_init = 0" "b3 pink_init = 0"
  "b4 pink_init = 0" "b5 pink_init = 0" "b6 pink_init = 0"
  by (simp_all add: pink_init_def)

lemma pink_sample_21: "pink_fill (\<lambda>_. draw_zero) 0 88200 pink_init ! 21 < - 1"
proof -
  have e: "Suc 20 = 21" by simp
  note vals = pink_run_low[of 0 20 pink_init, unfolded e pink_init_fields]
  have "pink_fill (\<lambda>_. draw_zero) 0 88200 pink_init ! 21
      = snd (pink_step (pink_run (\<lambda>_. draw_zero) 0 21 pink_init) (- 1))"
    using pink_fill_nth[of 21 88200 "\<lambda>_. draw_zero" 0 pink_init]
    by (simp add: Math_random_zero)
  also have "\<dots> < - 1"
    by (simp add: pink_step_def Let_def vals geo_def power_divide del: pink_run.simps)
  finally show ?thesis .
qed

text \<open>
  C3. The claim is that every sample of a white, pink or brown buffer lies within
  \<open>[-1, 1]\<close> whatever the random number generator returns. With a generator that returns
  0 at every call and a sample rate of 44100, sample 16 of the brown buffer and sample
  21 of the pink buffer are below \<open>- 1\<close>.
\<close>

theorem noise_samples_below_minus_one:
  "createBrownNoise 44100 (\<lambda>_. draw_zero) ! 16 < - 1 \<and>
   createPinkNoise 44100 (\<lambda>_. draw_zero) ! 21 < - 1"
  using brown_sample_16 pink_sample_21
  by (simp add: createBrownNoise_def createPinkNoise_def)

section \<open>The analysis snapshot\<close>


















section \<open>Track selection\<close>

lemma drawn_index_range:
  assumes "0 < n"
  shows "0 \<le> \<lfloor>Math_random rnd k * real n\<rfloor> \<and> \<lfloor>Math_random rnd k * real n\<rfloor> < int n"
proof -
  have r: "0 \<le> Math_random rnd k" "Math_random rnd k < 1" using Math_random_range by auto
  have "0 \<le> Math_random rnd k * real n" using r by simp
  moreover have "Math_random rnd k * real n < real n" using r assms by simp
  ultimately show ?thesis by (simp add: floor_less_iff)
qed

lemma LoopPlayer_draw_first:
  assumes "\<lfloor>Math_random rnd (k + j) * real n\<rfloor> \<noteq> cur"
    and "\<forall>i<j. \<lfloor>Math_random rnd (k + i) * real n\<rfloor> = cur" and "1 < n"
  shows "LoopPlayer_draw rnd k n cur = Some (\<lfloor>Math_random rnd (k + j) * real n\<rfloor>, Suc (k + j))"
  using assms
proof (induction j arbitrary: k)
  case 0
  then show ?case by (subst LoopPlayer_draw.simps) (simp add: Let_def)
next
  case (Suc j)
  have here: "\<lfloor>Math_random rnd k * real n\<rfloor> = cur" using Suc.prems(2) by force
  have "LoopPlayer_draw rnd (Suc k) n cur
      = Some (\<lfloor>Math_random rnd (Suc k + j) * real n\<rfloor>, Suc (Suc k + j))"
  proof (rule Suc.IH)
    show "\<lfloor>Math_random rnd (Suc k + j) * real n\<rfloor> \<noteq> cur" using Suc.prems(1) by simp
    show "\<forall>i<j. \<lfloor>Math_random rnd (Suc k + i) * real n\<rfloor> = cur"
    proof (intro allI impI)
      fix i assume "i < j"
      then have "Suc i < Suc j" by simp
      then show "\<lfloor>Math_random rnd (Suc k + i) * real n\<rfloor> = cur"
        using Suc.prems(2) by (metis add_Suc_shift)
    qed
    show "1 < n" by fact
  qed
  then show ?case using here Suc.prems(3)
    by (subst LoopPlayer_draw.simps) (simp add: Let_def)
qed

lemma WindPlayer_draw_first:
  assumes "\<lfloor>Math_random rnd (k + j) * real n\<rfloor> \<noteq> cur"
    and "\<forall>i<j. \<lfloor>Math_random rnd (k + i) * real n\<rfloor> = cur"
  shows "WindPlayer_draw rnd k n cur = Some (\<lfloor>Math_random rnd (k + j) * real n\<rfloor>, Suc (k + j))"
  using assms
proof (induction j arbitrary: k)
  case 0
  then show ?case by (subst WindPlayer_draw.simps) (simp add: Let_def)
next
  case (Suc j)
  have here: "\<lfloor>Math_random rnd k * real n\<rfloor> = cur" using Suc.prems(2) by force
  have "WindPlayer_draw rnd (Suc k) n cur
      = Some (\<lfloor>Math_random rnd (Suc k + j) * real n\<rfloor>, Suc (Suc k + j))"
  proof (rule Suc.IH)
    show "\<lfloor>Math_random rnd (Suc k + j) * real n\<rfloor> \<noteq> cur" using Suc.prems(1) by simp
    show "\<forall>i<j. \<lfloor>Math_random rnd (Suc k + i) * real n\<rfloor> = cur"
    proof (intro allI impI)
      fix i assume "i < j"
      then have "Suc i < Suc j" by simp
      then show "\<lfloor>Math_random rnd (Suc k + i) * real n\<rfloor> = cur"
        using Suc.prems(2) by (metis add_Suc_shift)
    qed
  qed
  then show ?case using here
    by (subst WindPlayer_draw.simps) (simp add: Let_def)
qed

lemma first_other_draw:
  assumes "never_stuck rnd n"
  obtains j where "\<lfloor>Math_random rnd (k + j) * real n\<rfloor> \<noteq> cur"
    and "\<forall>i<j. \<lfloor>Math_random rnd (k + i) * real n\<rfloor> = cur"
proof -
  let ?P = "\<lambda>j. \<lfloor>Math_random rnd (k + j) * real n\<rfloor> \<noteq> cur"
  from assms have ex: "\<exists>j. ?P j" by (simp add: never_stuck_def)
  define j where "j = (LEAST j. ?P j)"
  have "?P j" unfolding j_def using ex by (rule LeastI_ex)
  moreover have "\<forall>i<j. \<not> ?P i" unfolding j_def using not_less_Least by blast
  ultimately show ?thesis using that by blast
qed

lemma LoopPlayer_draw_returns:
  assumes "never_stuck rnd n" "1 < n"
  obtains i k' where "LoopPlayer_draw rnd k n cur = Some (i, k')" "i \<noteq> cur" "0 \<le> i" "i < int n"
proof -
  obtain j where j: "\<lfloor>Math_random rnd (k + j) * real n\<rfloor> \<noteq> cur"
      "\<forall>i<j. \<lfloor>Math_random rnd (k + i) * real n\<rfloor> = cur"
    using first_other_draw[OF assms(1)] by blast
  have "0 < n" using assms(2) by simp
  from drawn_index_range[OF this, of rnd "k + j"] LoopPlayer_draw_first[OF j assms(2)] j(1)
  show ?thesis using that by blast
qed

lemma WindPlayer_draw_returns:
  assumes "never_stuck rnd n" "1 < n"
  obtains i k' where "WindPlayer_draw rnd k n cur = Some (i, k')" "i \<noteq> cur" "0 \<le> i" "i < int n"
proof -
  obtain j where j: "\<lfloor>Math_random rnd (k + j) * real n\<rfloor> \<noteq> cur"
      "\<forall>i<j. \<lfloor>Math_random rnd (k + i) * real n\<rfloor> = cur"
    using first_other_draw[OF assms(1)] by blast
  have "0 < n" using assms(2) by simp
  from drawn_index_range[OF this, of rnd "k + j"] WindPlayer_draw_first[OF j] j(1)
  show ?thesis using that by blast
qed

lemma LoopPlayer_getNextIndex_returns:
  assumes "never_stuck rnd (length (lp_buffers p))" "1 < length (lp_buffers p)"
  obtains i k' where "LoopPlayer_getNextIndex rnd k p = Some (i, k')" "i \<noteq> lp_currentIndex p"
    "0 \<le> i" "i < int (length (lp_buffers p))"
proof -
  have n: "length (lp_buffers p) \<noteq> 0" "length (lp_buffers p) \<noteq> 1" using assms(2) by auto
  obtain i k' where "LoopPlayer_draw rnd k (length (lp_buffers p)) (lp_currentIndex p) = Some (i, k')"
    "i \<noteq> lp_currentIndex p" "0 \<le> i" "i < int (length (lp_buffers p))"
    using LoopPlayer_draw_returns[OF assms] by blast
  then show ?thesis using that n by (simp add: LoopPlayer_getNextIndex_def)
qed

lemma WindPlayer_getRandomBufferIndex_returns:
  assumes "never_stuck rnd (length (wp_recordingBuffers p))" "1 < length (wp_recordingBuffers p)"
  obtains i k' where "WindPlayer_getRandomBufferIndex rnd k p = Some (i, k')"
    "i \<noteq> wp_currentBufferIndex p" "0 \<le> i" "i < int (length (wp_recordingBuffers p))"
proof -
  have n: "length (wp_recordingBuffers p) \<noteq> 1" using assms(2) by simp
  obtain i k' where
    "WindPlayer_draw rnd k (length (wp_recordingBuffers p)) (wp_currentBufferIndex p) = Some (i, k')"
    "i \<noteq> wp_currentBufferIndex p" "0 \<le> i" "i < int (length (wp_recordingBuffers p))"
    using WindPlayer_draw_returns[OF assms] by blast
  then show ?thesis using that n by (simp add: WindPlayer_getRandomBufferIndex_def)
qed

lemma LoopPlayer_onTimeout_pick:
  assumes "never_stuck rnd (length (lp_buffers p))" "1 < length (lp_buffers p)" "lp_isPlaying p"
  obtains p1 k1 where "LoopPlayer_onTimeout now rnd k p = Some (p1, k1)"
    "lp_currentIndex p1 \<noteq> lp_currentIndex p" "lp_buffers p1 = lp_buffers p" "lp_isPlaying p1"
    "0 \<le> lp_currentIndex p1" "lp_currentIndex p1 < int (length (lp_buffers p))"
proof -
  obtain i k' where i: "LoopPlayer_getNextIndex rnd k p = Some (i, k')" "i \<noteq> lp_currentIndex p"
    "0 \<le> i" "i < int (length (lp_buffers p))"
    using LoopPlayer_getNextIndex_returns[OF assms(1,2)] by blast
  then have "i \<noteq> - 1" by simp
  with i assms(3) show ?thesis
    using that by (simp add: LoopPlayer_onTimeout_def LoopPlayer_playNext_def Let_def)
qed

lemma WindPlayer_performCrossfade_pick:
  assumes "never_stuck rnd (length (wp_recordingBuffers p))" "1 < length (wp_recordingBuffers p)"
    "wp_isPlaying p"
  obtains p1 k1 where "WindPlayer_performCrossfade now rnd k p = Some (p1, k1)"
    "wp_currentBufferIndex p1 \<noteq> wp_currentBufferIndex p"
    "wp_recordingBuffers p1 = wp_recordingBuffers p" "wp_isPlaying p1"
    "0 \<le> wp_currentBufferIndex p1" "wp_currentBufferIndex p1 < int (length (wp_recordingBuffers p))"
proof -
  obtain i k' where i: "WindPlayer_getRandomBufferIndex rnd k p = Some (i, k')"
    "i \<noteq> wp_currentBufferIndex p" "0 \<le> i" "i < int (length (wp_recordingBuffers p))"
    using WindPlayer_getRandomBufferIndex_returns[OF assms(1,2)] by blast
  have n: "length (wp_recordingBuffers p) \<noteq> 0" using assms(2) by auto
  show ?thesis
    using that i assms(3) n
    by (simp add: WindPlayer_performCrossfade_def WindPlayer_nextSource_def Let_def)
qed

lemma LoopPlayer_timeouts_distinct:
  assumes "never_stuck rnd (length (lp_buffers p))" "1 < length (lp_buffers p)" "lp_isPlaying p"
  shows "\<exists>picks p' k'. LoopPlayer_timeouts clock rnd k m p = Some (picks, p', k') \<and>
           length picks = m \<and> distinct_adj (lp_currentIndex p # picks)"
  using assms
proof (induction m arbitrary: k p)
  case 0
  show ?case by simp
next
  case (Suc m)
  obtain p1 k1 where s: "LoopPlayer_onTimeout (clock m) rnd k p = Some (p1, k1)"
    "lp_currentIndex p1 \<noteq> lp_currentIndex p" "lp_buffers p1 = lp_buffers p" "lp_isPlaying p1"
    using LoopPlayer_onTimeout_pick[OF Suc.prems] by blast
  from Suc.IH[of p1 k1] Suc.prems s
  obtain picks p' k' where r: "LoopPlayer_timeouts clock rnd k1 m p1 = Some (picks, p', k')"
    "length picks = m" "distinct_adj (lp_currentIndex p1 # picks)"
    by auto
  show ?case using s r by simp
qed

lemma WindPlayer_crossfades_distinct:
  assumes "never_stuck rnd (length (wp_recordingBuffers p))" "1 < length (wp_recordingBuffers p)"
    "wp_isPlaying p"
  shows "\<exists>picks p' k'. WindPlayer_crossfades clock rnd k m p = Some (picks, p', k') \<and>
           length picks = m \<and> distinct_adj (wp_currentBufferIndex p # picks)"
  using assms
proof (induction m arbitrary: k p)
  case 0
  show ?case by simp
next
  case (Suc m)
  obtain p1 k1 where s: "WindPlayer_performCrossfade (clock m) rnd k p = Some (p1, k1)"
    "wp_currentBufferIndex p1 \<noteq> wp_currentBufferIndex p"
    "wp_recordingBuffers p1 = wp_recordingBuffers p" "wp_isPlaying p1"
    using WindPlayer_performCrossfade_pick[OF Suc.prems] by blast
  from Suc.IH[of p1 k1] Suc.prems s
  obtain picks p' k' where r: "WindPlayer_crossfades clock rnd k1 m p1 = Some (picks, p', k')"
    "length picks = m" "distinct_adj (wp_currentBufferIndex p1 # picks)"
    by auto
  show ?case using s r by simp
qed


text \<open>
  C2. In a Uniform Loop player and in a blended player that hold more than one buffer,
  with a random sequence that never gets stuck, the selection of the next track
  returns, and returns an index other than the current one, which is the previous
  pick; so the picks of any number of consecutive timer rounds of a playing player
  differ from one to the next.
\<close>

theorem consecutive_picks_differ:
  assumes "1 < length (lp_buffers p)" and "never_stuck rnd (length (lp_buffers p))"
    and "lp_isPlaying p"
    and "1 < length (wp_recordingBuffers w)" and "never_stuck rnd (length (wp_recordingBuffers w))"
    and "wp_isPlaying w"
  shows "(\<exists>i k'. LoopPlayer_getNextIndex rnd k p = Some (i, k') \<and> i \<noteq> lp_currentIndex p) \<and>
         (\<exists>i k'. WindPlayer_getRandomBufferIndex rnd k w = Some (i, k') \<and> i \<noteq> wp_currentBufferIndex w) \<and>
         (\<exists>picks p' k'. LoopPlayer_timeouts clock rnd k m p = Some (picks, p', k') \<and>
             length picks = m \<and> distinct_adj (lp_currentIndex p # picks)) \<and>
         (\<exists>picks w' k'. WindPlayer_crossfades clock rnd k m w = Some (picks, w', k') \<and>
             length picks = m \<and> distinct_adj (wp_currentBufferIndex w # picks))"
proof (intro conjI)
  show "\<exists>i k'. LoopPlayer_getNextIndex rnd k p = Some (i, k') \<and> i \<noteq> lp_currentIndex p"
    using LoopPlayer_getNextIndex_returns[OF assms(2,1), of k] by blast
  show "\<exists>i k'. WindPlayer_getRandomBufferIndex rnd k w = Some (i, k') \<and> i \<noteq> wp_currentBufferIndex w"
    using WindPlayer_getRandomBufferIndex_returns[OF assms(5,4), of k] by blast
  show "\<exists>picks p' k'. LoopPlayer_timeouts clock rnd k m p = Some (picks, p', k') \<and>
      length picks = m \<and> distinct_adj (lp_currentIndex p # picks)"
    by (rule LoopPlayer_timeouts_distinct[OF assms(2,1,3)])
  show "\<exists>picks w' k'. WindPlayer_crossfades clock rnd k m w = Some (picks, w', k') \<and>
      length picks = m \<and> distinct_adj (wp_currentBufferIndex w # picks)"
    by (rule WindPlayer_crossfades_distinct[OF assms(5,4,6)])
qed

lemma alternating_index: "\<lfloor>Math_random alternating i * real 2\<rfloor> = (if even i then 0 else 1)"
  by (simp add: alternating_def Math_random_def draw_zero.rep_eq draw_half.rep_eq)

lemma never_stuck_alternating: "never_stuck alternating 2"
  unfolding never_stuck_def
proof (intro allI)
  fix k c
  show "\<exists>j. \<lfloor>Math_random alternating (k + j) * real 2\<rfloor> \<noteq> c"
  proof (cases "\<lfloor>Math_random alternating k * real 2\<rfloor> = c")
    case False
    then show ?thesis by (intro exI[of _ 0]) simp
  next
    case True
    then have "\<lfloor>Math_random alternating (k + 1) * real 2\<rfloor> \<noteq> c"
      unfolding alternating_index by (cases "even k") auto
    then show ?thesis by blast
  qed
qed

lemma loaded_two: "loaded_buffers fetch_all two_urls =
    [\<lparr>buf_url = ''a.mp3'', buf_duration = 10\<rparr>, \<lparr>buf_url = ''b.mp3'', buf_duration = 10\<rparr>]"
  by (simp add: loaded_buffers_def fetch_all_def two_urls_def)

lemma alternating_first_draw:
  "LoopPlayer_draw alternating 0 (Suc (Suc 0)) (- 1) = Some (0, Suc 0)"
  "WindPlayer_draw alternating 0 (Suc (Suc 0)) (- 1) = Some (0, Suc 0)"
proof -
  have i: "\<lfloor>Math_random alternating 0 * real (Suc (Suc 0))\<rfloor> = 0"
    using alternating_index[of 0] by simp
  show "LoopPlayer_draw alternating 0 (Suc (Suc 0)) (- 1) = Some (0, Suc 0)"
    by (subst LoopPlayer_draw.simps) (simp only: i Let_def, simp)
  show "WindPlayer_draw alternating 0 (Suc (Suc 0)) (- 1) = Some (0, Suc 0)"
    by (subst WindPlayer_draw.simps) (simp only: i Let_def, simp)
qed

lemma playing_LoopPlayer_facts:
  "length (lp_buffers playing_LoopPlayer) = 2 \<and> lp_isPlaying playing_LoopPlayer \<and>
   lp_currentIndex playing_LoopPlayer = 0"
proof -
  have l: "lp_isLoaded (LoopPlayer_load fetch_all two_urls (LoopPlayer_new (Some 3)))"
    "\<not> lp_isPlaying (LoopPlayer_load fetch_all two_urls (LoopPlayer_new (Some 3)))"
    "lp_currentIndex (LoopPlayer_load fetch_all two_urls (LoopPlayer_new (Some 3))) = - 1"
    "lp_buffers (LoopPlayer_load fetch_all two_urls (LoopPlayer_new (Some 3)))
       = loaded_buffers fetch_all two_urls"
    by (simp_all add: LoopPlayer_load_def LoopPlayer_new_def Let_def loaded_two)
  show ?thesis
    unfolding playing_LoopPlayer_def
    by (simp add: LoopPlayer_start_def LoopPlayer_playNext_def LoopPlayer_getNextIndex_def l
        loaded_two alternating_first_draw Let_def)
qed

lemma playing_WindPlayer_facts:
  "length (wp_recordingBuffers playing_WindPlayer) = 2 \<and> wp_isPlaying playing_WindPlayer \<and>
   wp_currentBufferIndex playing_WindPlayer = 0"
proof -
  have l: "wp_isLoaded (WindPlayer_load fetch_all (WindPlayer_new two_urls None None None))"
    "\<not> wp_isPlaying (WindPlayer_load fetch_all (WindPlayer_new two_urls None None None))"
    "wp_currentBufferIndex (WindPlayer_load fetch_all (WindPlayer_new two_urls None None None)) = - 1"
    "wp_recordingBuffers (WindPlayer_load fetch_all (WindPlayer_new two_urls None None None))
       = loaded_buffers fetch_all two_urls"
    by (simp_all add: WindPlayer_load_def WindPlayer_new_def Let_def two_urls_def)
  show ?thesis
    unfolding playing_WindPlayer_def
    by (simp add: WindPlayer_start_def WindPlayer_startRecordingLayer_def WindPlayer_nextSource_def
        WindPlayer_getRandomBufferIndex_def l loaded_two alternating_first_draw Let_def)
qed

theorem consecutive_picks_witness:
  "(\<exists>picks p' k'. LoopPlayer_timeouts (\<lambda>_. 0) alternating 1 3 playing_LoopPlayer = Some (picks, p', k') \<and>
      length picks = 3 \<and> distinct_adj (lp_currentIndex playing_LoopPlayer # picks)) \<and>
   (\<exists>picks w' k'. WindPlayer_crossfades (\<lambda>_. 0) alternating 1 3 playing_WindPlayer = Some (picks, w', k') \<and>
      length picks = 3 \<and> distinct_adj (wp_currentBufferIndex playing_WindPlayer # picks))"
  using consecutive_picks_differ[of playing_LoopPlayer alternating playing_WindPlayer 1 "\<lambda>_. 0" 3]
    playing_LoopPlayer_facts playing_WindPlayer_facts never_stuck_alternating
  by simp

section \<open>The sample loader\<close>

text \<open>
  C9. \<open>load\<close> returns the cached buffer without a fetch when the name is cached; it
  returns the pending promise of the earlier call without a fetch when a load of the
  name is in flight; otherwise it fetches the URL and registers its promise as in
  flight. When the fetch succeeds the buffer is cached under the name and returned;
  when it fails the call rejects, the name is in neither map, and the next
  \<open>load\<close> of the name fetches again.
\<close>

theorem load_cache_protocol:
  "(sl_buffers l1 name = Some buffer \<longrightarrow> load_begin name url l1 = (Cached buffer, l1)) \<and>
   (sl_buffers l2 name = None \<and> sl_loading l2 name = Some promise \<longrightarrow>
      load_begin name url l2 = (Joined promise, l2)) \<and>
   (sl_buffers l3 name = None \<and> sl_loading l3 name = None \<longrightarrow>
      (\<exists>l4. load_begin name url l3 = (Started (length (net_fetched l3)), l4) \<and>
         net_fetched l4 = net_fetched l3 @ [url] \<and>
         sl_loading l4 name = Some (length (net_fetched l3)) \<and>
         sl_buffers l4 = sl_buffers l3 \<and>
         (\<exists>l5. load_settle name (Inr decoded) l4 = (Inr decoded, l5) \<and>
            sl_buffers l5 name = Some decoded \<and> sl_loading l5 name = None \<and>
            net_fetched l5 = net_fetched l4) \<and>
         (\<exists>l6 l7. load_settle name (Inl error) l4 = (Inl error, l6) \<and>
            sl_buffers l6 name = None \<and> sl_loading l6 name = None \<and>
            sl_buffers l6 = sl_buffers l3 \<and> net_fetched l6 = net_fetched l4 \<and>
            load_begin name url l6 = (Started (length (net_fetched l6)), l7) \<and>
            net_fetched l7 = net_fetched l3 @ [url, url])))"
  by (auto simp: load_begin_def load_settle_def Let_def)

theorem load_cache_protocol_witness:
  "load_begin ''raindrop_1'' ''samples/raindrop_1.mp3''
      (SampleLoader_new\<lparr>sl_buffers := [''raindrop_1'' \<mapsto> one_buffer]\<rparr>)
     = (Cached one_buffer, SampleLoader_new\<lparr>sl_buffers := [''raindrop_1'' \<mapsto> one_buffer]\<rparr>) \<and>
   load_begin ''raindrop_1'' ''samples/raindrop_1.mp3''
      (SampleLoader_new\<lparr>sl_loading := [''raindrop_1'' \<mapsto> 0], net_fetched := [''samples/raindrop_1.mp3'']\<rparr>)
     = (Joined 0, SampleLoader_new\<lparr>sl_loading := [''raindrop_1'' \<mapsto> 0], net_fetched := [''samples/raindrop_1.mp3'']\<rparr>) \<and>
   (\<exists>l4 l6 l7. load_begin ''raindrop_1'' ''samples/raindrop_1.mp3'' SampleLoader_new = (Started 0, l4) \<and>
      load_settle ''raindrop_1'' (Inl ''HTTP 404'') l4 = (Inl ''HTTP 404'', l6) \<and>
      sl_buffers l6 ''raindrop_1'' = None \<and> sl_loading l6 ''raindrop_1'' = None \<and>
      load_begin ''raindrop_1'' ''samples/raindrop_1.mp3'' l6 = (Started 1, l7) \<and>
      net_fetched l7 = [''samples/raindrop_1.mp3'', ''samples/raindrop_1.mp3''])"
  using load_cache_protocol[of "SampleLoader_new\<lparr>sl_buffers := [''raindrop_1'' \<mapsto> one_buffer]\<rparr>"
      "''raindrop_1''" one_buffer "''samples/raindrop_1.mp3''"
      "SampleLoader_new\<lparr>sl_loading := [''raindrop_1'' \<mapsto> 0], net_fetched := [''samples/raindrop_1.mp3'']\<rparr>"
      0 SampleLoader_new one_buffer "''HTTP 404''"]
  by (auto simp: SampleLoader_new_def)

text \<open>
  C10. For a name that is not cached \<open>play\<close> returns \<open>null\<close> and leaves the loader and
  the audio graph as they are. For a cached name it makes one buffer source with the
  given rate and detune and one gain node with the given volume (1, 1 and 0 where an
  option is absent), connects the source to the gain node and the gain node to the
  destination, starts the source and returns it; the loader is left as it is.
\<close>

theorem play_one_shot:
  "(sl_buffers l1 name = None \<longrightarrow> SampleLoader_play name options (l1, g) = (None, l1, g)) \<and>
   (sl_buffers l2 name = Some buffer \<longrightarrow>
      (let source = length (g_nodes g);
           gainNode = Suc source;
           destination = (case opt_destination options of None \<Rightarrow> context_destination | Some d \<Rightarrow> d)
       in SampleLoader_play name options (l2, g) =
            (Some source, l2,
             g\<lparr>g_nodes := g_nodes g @
                  [BufferSourceNode buffer (js_nullish (opt_playbackRate options) 1)
                     (js_nullish (opt_detune options) 0),
                   GainNode (js_nullish (opt_volume options) 1)],
               g_connections := g_connections g @ [(source, gainNode), (gainNode, destination)],
               g_started := g_started g @ [source]\<rparr>)))"
  by (auto simp: SampleLoader_play_def Let_def js_nullish_def split: option.splits)

theorem play_one_shot_witness:
  "SampleLoader_play ''raindrop_2'' quiet_options
      (SampleLoader_new\<lparr>sl_buffers := [''raindrop_1'' \<mapsto> one_buffer]\<rparr>, AudioGraph_new)
     = (None, SampleLoader_new\<lparr>sl_buffers := [''raindrop_1'' \<mapsto> one_buffer]\<rparr>, AudioGraph_new) \<and>
   SampleLoader_play ''raindrop_1'' quiet_options
      (SampleLoader_new\<lparr>sl_buffers := [''raindrop_1'' \<mapsto> one_buffer]\<rparr>, AudioGraph_new)
     = (Some 1, SampleLoader_new\<lparr>sl_buffers := [''raindrop_1'' \<mapsto> one_buffer]\<rparr>,
        \<lparr>g_nodes = [DestinationNode, BufferSourceNode one_buffer 1 50, GainNode 0.5],
         g_connections = [(1, 2), (2, 0)], g_started = [1]\<rparr>)"
  using play_one_shot[of "SampleLoader_new\<lparr>sl_buffers := [''raindrop_1'' \<mapsto> one_buffer]\<rparr>"
      "''raindrop_2''" quiet_options AudioGraph_new
      "SampleLoader_new\<lparr>sl_buffers := [''raindrop_1'' \<mapsto> one_buffer]\<rparr>" one_buffer]
    play_one_shot[of "SampleLoader_new\<lparr>sl_buffers := [''raindrop_1'' \<mapsto> one_buffer]\<rparr>"
      "''raindrop_1''" quiet_options AudioGraph_new
      "SampleLoader_new\<lparr>sl_buffers := [''raindrop_1'' \<mapsto> one_buffer]\<rparr>" one_buffer]
  by (simp add: SampleLoader_new_def AudioGraph_new_def quiet_options_def js_nullish_def
      context_destination_def Let_def)

section \<open>The engine after initialisation\<close>

lemma same_playback_refl: "same_playback e e"
  by (simp add: same_playback_def)

lemma same_playback_trans: "same_playback a b \<Longrightarrow> same_playback b c \<Longrightarrow> same_playback a c"
  by (simp add: same_playback_def)

lemma loadScene_begin_same: "same_playback e (fst (loadScene_begin scene e))"
  by (simp add: loadScene_begin_def same_playback_def Let_def split: option.splits)

lemma preloadScenes_same: "same_playback e (preloadScenes scenes e)"
proof (induction scenes arbitrary: e)
  case Nil
  show ?case by (simp add: same_playback_refl)
next
  case (Cons scene scenes)
  obtain e1 task where b: "loadScene_begin scene e = (e1, task)" by (cases "loadScene_begin scene e")
  have 1: "same_playback e (e1\<lparr>eng_preloads := eng_preloads e1 @ [(scene, task)]\<rparr>)"
    using loadScene_begin_same[of e scene] b by (simp add: same_playback_def)
  show ?case
    using same_playback_trans[OF 1 Cons.IH[of "e1\<lparr>eng_preloads := eng_preloads e1 @ [(scene, task)]\<rparr>"]] b
    by simp
qed

lemma analyzer_2048: "AudioAnalyzer_new 44100 (Some 2048) (Some 0.85) \<noteq> None"
  by (simp add: AudioAnalyzer_new_def valid_fftSize_def Let_def)

lemma ready_engine_facts:
  "eng_isInitialized ready_engine" "eng_audioContext ready_engine = Some \<lparr>ctx_sampleRate = 44100\<rparr>"
  "eng_masterGain ready_engine = Some (new_param DEFAULT_VOLUME)"
  "eng_players ready_engine = Map.empty" "eng_heap ready_engine = []"
  "eng_currentPlayer ready_engine = None" "eng_currentScene ready_engine = None"
  "\<not> eng_isPlaying ready_engine" "eng_scenes ready_engine = DEFAULT_SCENES"
  "eng_detached ready_engine = []" "eng_crossfadeDuration ready_engine = 1.5"
proof -
  obtain a where a: "AudioAnalyzer_new 44100 (Some 2048) (Some 0.85) = Some a"
    using analyzer_2048 by auto
  define e1 where "e1 = (AudioEngine_new DEFAULT_VOLUME 1.5 DEFAULT_SCENES)
     \<lparr>eng_audioContext := Some \<lparr>ctx_sampleRate = 44100\<rparr>,
      eng_masterGain := Some (new_param DEFAULT_VOLUME),
      eng_analyzer := Some a, eng_animationFrameId := Some 1, eng_isInitialized := True\<rparr>"
  have r: "ready_engine = preloadScenes (map fst (eng_scenes e1)) e1"
    by (simp add: ready_engine_def init_def a[simplified] e1_def AudioEngine_new_def Let_def)
  have s: "same_playback e1 ready_engine" unfolding r by (rule preloadScenes_same)
  show "eng_isInitialized ready_engine" "eng_audioContext ready_engine = Some \<lparr>ctx_sampleRate = 44100\<rparr>"
    "eng_masterGain ready_engine = Some (new_param DEFAULT_VOLUME)"
    "eng_players ready_engine = Map.empty" "eng_heap ready_engine = []"
    "eng_currentPlayer ready_engine = None" "eng_currentScene ready_engine = None"
    "\<not> eng_isPlaying ready_engine" "eng_scenes ready_engine = DEFAULT_SCENES"
    "eng_detached ready_engine = []" "eng_crossfadeDuration ready_engine = 1.5"
    using s by (simp_all add: same_playback_def e1_def AudioEngine_new_def)
qed

section \<open>The master volume\<close>









section \<open>Loading scenes\<close>

lemma loaded_buffers_nonempty:
  "loaded_buffers fetch urls \<noteq> [] \<longleftrightarrow> (\<exists>url \<in> set urls. fetch url \<noteq> None)"
  by (induction urls) (auto simp: loaded_buffers_def)

lemma player_connect_isLoaded: "player_isLoaded (player_connect p) = player_isLoaded p"
  by (cases p) simp_all

lemma isSceneLoaded_finish:
  assumes "eng_masterGain e \<noteq> None"
  shows "isSceneLoaded scene (loadScene_finish scene player e) = player_isLoaded player"
  using assms
  by (auto simp: isSceneLoaded_def loadScene_finish_def Let_def player_connect_isLoaded)

lemma isSceneLoaded_begin:
  "isSceneLoaded scene (fst (loadScene_begin scene' e)) = isSceneLoaded scene e"
proof -
  have "eng_players (fst (loadScene_begin scene' e)) = eng_players e"
    "eng_heap (fst (loadScene_begin scene' e)) = eng_heap e"
    using loadScene_begin_same[of e scene'] unfolding same_playback_def by blast+
  then show ?thesis by (simp add: isSceneLoaded_def split: option.splits)
qed


lemma LoopPlayer_load_isLoaded:
  "lp_isLoaded (LoopPlayer_load fetch urls p) \<longleftrightarrow> (\<exists>url \<in> set urls. fetch url \<noteq> None)"
  using loaded_buffers_nonempty[of fetch urls] by (simp add: LoopPlayer_load_def Let_def)

lemma CafePlayer_load_isLoaded:
  "cp_isLoaded (CafePlayer_load fetch (CafePlayer_new ambience sfx interval)) \<longleftrightarrow>
   (\<exists>url. ambience = Some url \<and> url \<noteq> [] \<and> fetch url \<noteq> None)"
  by (auto simp: CafePlayer_load_def CafePlayer_new_def Let_def split: option.splits)

lemma WindPlayer_load_isLoaded: "wp_isLoaded (WindPlayer_load fetch p)"
  by (simp add: WindPlayer_load_def Let_def)

lemma default_configs:
  "map_of DEFAULT_SCENES ''rain'' = Some (no_config\<lparr>cfg_files := Some
          [''src/audio/loops/rain/gentle-rain-from-window.mp3'',
           ''src/audio/loops/rain/rain-and-birds.mp3'',
           ''src/audio/loops/rain/rain-on-concrete-sound-30331.mp3''],
        cfg_crossfadeDuration := Some 3\<rparr>)"
  "\<exists>config. map_of DEFAULT_SCENES ''wind'' = Some config \<and> cfg_type config = Some ''wind''"
  by (simp_all add: DEFAULT_SCENES_def no_config_def)

lemma wind_scene_loaded:
  assumes "eng_players e scene = None" and "map_of (eng_scenes e) scene = Some config"
    and "eng_audioContext e \<noteq> None" and "eng_masterGain e \<noteq> None"
    and "cfg_type config = Some ''wind''"
  shows "isSceneLoaded scene (loadScene fetch scene e)"
proof -
  from assms(3) obtain ctx where ctx: "eng_audioContext e = Some ctx" by auto
  have mg1: "eng_masterGain (fst (loadScene_begin scene e)) \<noteq> None"
    using loadScene_begin_same[of e scene] assms(4) by (simp add: same_playback_def)
  obtain e1 p where b: "loadScene_begin scene e = (e1, Some (Wind p, []))"
    using assms(1,2,5) ctx by (simp add: loadScene_begin_def Let_def)
  have "eng_masterGain e1 \<noteq> None" using mg1 b by simp
  then show ?thesis
    using b by (simp add: loadScene_def loadScene_resume_def isSceneLoaded_finish WindPlayer_load_isLoaded)
qed

lemma cafe_scene_loaded:
  assumes "eng_players e scene = None" and "map_of (eng_scenes e) scene = Some config"
    and "eng_audioContext e \<noteq> None" and "eng_masterGain e \<noteq> None"
    and "cfg_type config = Some ''cafe''"
  shows "isSceneLoaded scene (loadScene fetch scene e) \<longleftrightarrow>
     (\<exists>url. cfg_ambience config = Some url \<and> url \<noteq> [] \<and> fetch url \<noteq> None)"
proof -
  from assms(3) obtain ctx where ctx: "eng_audioContext e = Some ctx" by auto
  have mg1: "eng_masterGain (fst (loadScene_begin scene e)) \<noteq> None"
    using loadScene_begin_same[of e scene] assms(4) by (simp add: same_playback_def)
  obtain e1 p where b: "loadScene_begin scene e = (e1, Some (Cafe p, []))"
    and p: "p = CafePlayer_new (cfg_ambience config)
        (case cfg_sfx config of None \<Rightarrow> [] | Some urls \<Rightarrow> urls) (Some (js_or (cfg_sfxInterval config) 8))"
    using assms(1,2,5) ctx by (simp add: loadScene_begin_def Let_def)
  have "eng_masterGain e1 \<noteq> None" using mg1 b by simp
  then show ?thesis
    using b
    by (simp add: loadScene_def loadScene_resume_def isSceneLoaded_finish p CafePlayer_load_isLoaded)
qed

lemma loop_scene_loaded:
  assumes "eng_players e scene = None" and "map_of (eng_scenes e) scene = Some config"
    and "eng_audioContext e \<noteq> None" and "eng_masterGain e \<noteq> None"
    and "cfg_type config \<noteq> Some ''cafe''" and "cfg_type config \<noteq> Some ''wind''"
  shows "isSceneLoaded scene (loadScene fetch scene e) \<longleftrightarrow>
     (\<exists>files. cfg_files config = Some files \<and> (\<exists>url \<in> set files. fetch url \<noteq> None))"
proof -
  from assms(3) obtain ctx where ctx: "eng_audioContext e = Some ctx" by auto
  have none: "\<not> isSceneLoaded scene e" using assms(1) by (simp add: isSceneLoaded_def)
  have mg1: "eng_masterGain (fst (loadScene_begin scene e)) \<noteq> None"
    using loadScene_begin_same[of e scene] assms(4) by (simp add: same_playback_def)
  have unloaded: "\<not> isSceneLoaded scene (fst (loadScene_begin scene e))"
    using none by (simp add: isSceneLoaded_begin)
  show ?thesis
  proof (cases "cfg_files config")
    case None
    then have "snd (loadScene_begin scene e) = None"
      using assms(1,2,5,6) by (simp add: loadScene_begin_def Let_def)
    then obtain e1 where b: "loadScene_begin scene e = (e1, None)"
      by (cases "loadScene_begin scene e") simp
    show ?thesis
      using unloaded None b by (simp add: loadScene_def loadScene_resume_def)
  next
    case (Some files)
    show ?thesis
    proof (cases "files = []")
      case True
      then have "snd (loadScene_begin scene e) = None"
        using assms(1,2,5,6) Some by (simp add: loadScene_begin_def Let_def)
      then obtain e1 where b: "loadScene_begin scene e = (e1, None)"
        by (cases "loadScene_begin scene e") simp
      show ?thesis
        using unloaded Some True b by (simp add: loadScene_def loadScene_resume_def)
    next
      case False
      obtain e1 p where b: "loadScene_begin scene e = (e1, Some (Loop p, files))"
        using assms(1,2,5,6) ctx Some False by (simp add: loadScene_begin_def Let_def)
      have "eng_masterGain e1 \<noteq> None" using mg1 b by simp
      then show ?thesis
        using b Some
        by (simp add: loadScene_def loadScene_resume_def isSceneLoaded_finish LoopPlayer_load_isLoaded)
    qed
  qed
qed

text \<open>
  C5, as the code has it. On an engine with an audio context and a master gain, for a
  scene that has a configuration and no player yet, after the load of the scene has
  settled: a Uniform Loop scene (no type) is loaded exactly when one of its files
  loaded; a layered scene (type cafe) is loaded exactly when its ambience recording
  loaded, whatever became of its sound effects; a blended scene (type wind) is loaded
  whatever became of its recordings.
\<close>

theorem isSceneLoaded_after_load:
  assumes "eng_players e scene = None" and "map_of (eng_scenes e) scene = Some config"
    and "eng_audioContext e \<noteq> None" and "eng_masterGain e \<noteq> None"
  shows "isSceneLoaded scene (loadScene fetch scene e) \<longleftrightarrow>
     (if cfg_type config = Some ''cafe''
      then (\<exists>url. cfg_ambience config = Some url \<and> url \<noteq> [] \<and> fetch url \<noteq> None)
      else if cfg_type config = Some ''wind'' then True
      else (\<exists>files. cfg_files config = Some files \<and> (\<exists>url \<in> set files. fetch url \<noteq> None)))"
proof -
  consider (cafe) "cfg_type config = Some ''cafe''"
    | (wind) "cfg_type config \<noteq> Some ''cafe''" "cfg_type config = Some ''wind''"
    | (loop) "cfg_type config \<noteq> Some ''cafe''" "cfg_type config \<noteq> Some ''wind''"
    by blast
  then show ?thesis
  proof cases
    case cafe
    then show ?thesis using cafe_scene_loaded[OF assms cafe, of fetch] by simp
  next
    case wind
    then show ?thesis using wind_scene_loaded[OF assms wind(2), of fetch] by simp
  next
    case loop
    then show ?thesis using loop_scene_loaded[OF assms loop, of fetch] by simp
  qed
qed

text \<open>
  C5, as the claim has it, fails for the blended variant: with every fetch failing, the
  wind scene of the default configuration reports loaded.
\<close>

theorem wind_scene_loaded_without_assets:
  "(\<forall>url. fetch_none url = None) \<and>
   isSceneLoaded ''wind'' (loadScene fetch_none ''wind'' ready_engine)"
proof -
  obtain config where c: "map_of (eng_scenes ready_engine) ''wind'' = Some config"
    "cfg_type config = Some ''wind''"
    using default_configs(2) by (auto simp: ready_engine_facts)
  have "isSceneLoaded ''wind'' (loadScene fetch_none ''wind'' ready_engine)"
    by (rule wind_scene_loaded[OF _ c(1) _ _ c(2)]) (simp_all add: ready_engine_facts)
  then show ?thesis by (simp add: fetch_none_def)
qed

theorem isSceneLoaded_after_load_witness:
  "isSceneLoaded ''rain''
     (loadScene (fetch_only ''src/audio/loops/rain/rain-and-birds.mp3'') ''rain'' ready_engine) \<and>
   \<not> isSceneLoaded ''rain'' (loadScene fetch_none ''rain'' ready_engine)"
  using isSceneLoaded_after_load[of ready_engine "''rain''" _
      "fetch_only ''src/audio/loops/rain/rain-and-birds.mp3''", OF _ _ _ _]
    isSceneLoaded_after_load[of ready_engine "''rain''" _ fetch_none]
  by (simp add: ready_engine_facts default_configs(1) no_config_def fetch_only_def fetch_none_def)

section \<open>Starting and stopping players\<close>






section \<open>Playing a scene\<close>


















section \<open>Stopping\<close>









section \<open>Switching scenes from the hook\<close>

lemma detached_stop_initialized:
  "eng_isInitialized (detached_stop fadeTime now r e) = eng_isInitialized e"
  by (simp add: detached_stop_def Let_def split: prod.splits option.splits)

lemma start_player_initialized:
  "start_player now rnd k r e = Some (e', k') \<Longrightarrow> eng_isInitialized e' = eng_isInitialized e"
  by (auto simp: start_player_def split: option.splits)

lemma play_start_initialized:
  assumes "play_start now rnd k scene e = Some (e', k')"
  shows "eng_isInitialized e' = eng_isInitialized e"
proof -
  define es where "es = (case eng_currentPlayer e of None \<Rightarrow> e | Some current \<Rightarrow> detached_stop 0 now current e)"
  have i: "eng_isInitialized es = eng_isInitialized e"
    by (simp add: es_def detached_stop_initialized split: option.splits)
  from assms obtain r e2 where "start_player now rnd k r es = Some (e2, k')"
    "e' = e2\<lparr>eng_currentPlayer := Some r, eng_currentScene := Some scene, eng_isPlaying := True\<rparr>"
    by (auto simp: play_start_def es_def[symmetric] split: option.splits)
  then show ?thesis using start_player_initialized[of now rnd k r es e2 k'] i by simp
qed

lemma switchScene_start_initialized:
  assumes "switchScene_start fadeTime now rnd k scene e = Some (e', k')"
  shows "eng_isInitialized e' = eng_isInitialized e"
proof -
  from assms obtain r e1 where s: "start_player now rnd k r e = Some (e1, k')"
    and e': "e' = (case eng_currentPlayer e of
        None \<Rightarrow> e1\<lparr>eng_currentPlayer := Some r, eng_currentScene := Some scene, eng_isPlaying := True\<rparr>
      | Some old \<Rightarrow> detached_stop fadeTime now old
          (e1\<lparr>eng_currentPlayer := Some r, eng_currentScene := Some scene, eng_isPlaying := True\<rparr>))"
    by (auto simp: switchScene_start_def Let_def split: option.splits)
  show ?thesis
    unfolding e' using start_player_initialized[OF s]
    by (simp add: detached_stop_initialized split: option.splits)
qed

lemma loadScene_begin_initialized:
  "eng_isInitialized (fst (loadScene_begin scene e)) = eng_isInitialized e"
  using loadScene_begin_same[of e scene] by (simp add: same_playback_def)

lemma loadScene_resume_initialized:
  "eng_isInitialized (loadScene_resume fetch scene task e) = eng_isInitialized e"
  by (simp add: loadScene_resume_def loadScene_finish_def Let_def split: option.splits prod.splits)

lemma engine_begin_initialized:
  "play_begin now rnd k scene e = Some (e', k', p) \<Longrightarrow> eng_isInitialized e' = eng_isInitialized e"
  "switchScene_begin opt_fade now rnd k scene e = Some (e', k', p) \<Longrightarrow>
     eng_isInitialized e' = eng_isInitialized e"
  using loadScene_begin_initialized[of scene e]
  by (auto simp: play_begin_def switchScene_begin_def Let_def play_start_initialized
      switchScene_start_initialized split: if_splits prod.splits)

lemma engine_resume_initialized:
  "play_resume fetch now rnd k scene task e = Some (e', k') \<Longrightarrow>
     eng_isInitialized e' = eng_isInitialized e"
  "switchScene_resume fetch opt_fade now rnd k scene task e = Some (e', k') \<Longrightarrow>
     eng_isInitialized e' = eng_isInitialized e"
  using loadScene_resume_initialized[of fetch scene task e]
  by (auto simp: play_resume_def switchScene_resume_def Let_def play_start_initialized
      switchScene_start_initialized split: if_splits)

lemma init_ready: "init pf e = (True, e') \<Longrightarrow> eng_isInitialized e'"
proof -
  assume a: "init pf e = (True, e')"
  show ?thesis
  proof (cases "eng_isInitialized e")
    case True
    then show ?thesis using a by (simp add: init_def)
  next
    case False
    then obtain ctx an where "pf = ContextRunning ctx"
      "AudioAnalyzer_new (ctx_sampleRate ctx) (Some 2048) (Some 0.85) = Some an"
      and e': "e' = preloadScenes (map fst (eng_scenes e))
          (e\<lparr>eng_audioContext := Some ctx, eng_masterGain := Some (new_param (eng_defaultVolume e)),
             eng_analyzer := Some an, eng_animationFrameId := Some 1, eng_isInitialized := True\<rparr>)"
      using a by (auto simp: init_def Let_def split: platform.splits option.splits)
    show ?thesis
      unfolding e'
      using preloadScenes_same[of "e\<lparr>eng_audioContext := Some ctx,
          eng_masterGain := Some (new_param (eng_defaultVolume e)),
          eng_analyzer := Some an, eng_animationFrameId := Some 1, eng_isInitialized := True\<rparr>"
          "map fst (eng_scenes e)"]
      by (simp add: same_playback_def)
  qed
qed

lemma init_again: "eng_isInitialized e \<Longrightarrow> init pf e = (True, e)"
  by (simp add: init_def)

lemma switchScene_locked_engine:
  assumes "switchScene_locked cs ip scene now rnd k h = Some (h', k', p)"
    and "\<forall>engine. engineRef h = Some engine \<longrightarrow> eng_isInitialized engine"
  shows "\<forall>engine. engineRef h' = Some engine \<longrightarrow> eng_isInitialized engine"
  using assms engine_begin_initialized
  by (auto simp: switchScene_locked_def Let_def split: option.splits if_splits)

text \<open>
  The condition that the engine of a locked hook is initialised is kept by every step of the hook: it holds when the
  hook is mounted, and a call of \<open>switchScene\<close> and the continuation of a suspended call
  hand it on.
\<close>

lemma lock_inv_mount: "lock_inv useStay_mount"
  by (simp add: lock_inv_def useStay_mount_def)

lemma lock_inv_call:
  assumes "useStay_switchScene cs ip scene now rnd k h = Some (h', k', p)" and "lock_inv h"
  shows "lock_inv h'"
proof (cases "engineRef h")
  case None
  then show ?thesis using assms by (simp add: useStay_switchScene_def)
next
  case (Some engine)
  show ?thesis
  proof (cases "eng_isInitialized engine")
    case True
    then have "\<forall>engine. engineRef h' = Some engine \<longrightarrow> eng_isInitialized engine"
      using switchScene_locked_engine[of cs ip scene now rnd k h h' k' p] assms(1) Some
      by (simp add: useStay_switchScene_def)
    then show ?thesis by (simp add: lock_inv_def)
  next
    case False
    then show ?thesis using assms Some by (simp add: useStay_switchScene_def)
  qed
qed

lemma lock_inv_resume:
  assumes "useStay_resume fetch pf rejects now rnd k pending h = Some (h', k', p)" and "lock_inv h"
  shows "lock_inv h'"
proof (cases "engineRef h")
  case None
  then show ?thesis using assms by (simp add: useStay_resume_def)
next
  case (Some engine)
  show ?thesis
  proof (cases pending)
    case (AwaitInit scene cs ip)
    obtain ready engine1 where i: "init pf engine = (ready, engine1)" by (cases "init pf engine")
    show ?thesis
    proof (cases ready)
      case True
      then have "eng_isInitialized engine1" using i init_ready by simp
      then have "\<forall>engine. engineRef h' = Some engine \<longrightarrow> eng_isInitialized engine"
        using switchScene_locked_engine[of cs ip scene now rnd k "h\<lparr>engineRef := Some engine1\<rparr>" h' k' p]
          assms(1) Some AwaitInit i True
        by (simp add: useStay_resume_def)
      then show ?thesis by (simp add: lock_inv_def)
    next
      case False
      have "\<not> eng_isInitialized engine" using i False init_again[of engine pf] by auto
      then have "\<not> isSwitchingRef h" using assms(2) Some by (auto simp: lock_inv_def)
      then show ?thesis
        using assms(1) Some AwaitInit i False by (auto simp: useStay_resume_def lock_inv_def)
    qed
  next
    case (AwaitEngine scene ip crossfade ep)
    then have "\<not> isSwitchingRef h'"
      using assms(1) Some
      by (auto simp: useStay_resume_def Let_def split: option.splits if_splits engine_pending.splits)
    then show ?thesis by (simp add: lock_inv_def)
  qed
qed





end
